theory Spec2Isabelle
  imports Main
begin

section \<open>JavaScript values, errors and configuration objects\<close>

text \<open>
  The main file \<^verbatim>\<open>app.js\<close> is straight-line top-level code plus four callbacks (the
  configuration watcher and three process event listeners). The model below follows it
  statement by statement. Everything the file calls but does not define (Node's module
  loader and file system, the subsystem modules, the crash logger) is a parameter of the
  model, collected in the record \<open>world\<close>.
\<close>

datatype jsval = JUndefined | JNull | JBool bool | JNum int | JStr string

text \<open>Truthiness, as used by \<^verbatim>\<open>if (Config.watchconfig)\<close> and friends.\<close>

fun truthy :: "jsval \<Rightarrow> bool" where
  "truthy JUndefined = False"
| "truthy JNull = False"
| "truthy (JBool b) = b"
| "truthy (JNum n) = (n \<noteq> 0)"
| "truthy (JStr s) = (s \<noteq> [])"

text \<open>A configuration object: the option names and values exported by config/config.js.\<close>

type_synonym config = "(string \<times> jsval) list"

definition optionValue :: "config \<Rightarrow> string \<Rightarrow> jsval" where
  "optionValue c k = (case map_of c k of None \<Rightarrow> JUndefined | Some v \<Rightarrow> v)"

text \<open>An exception value: its \<^verbatim>\<open>code\<close> (empty when it has none), message and stack.\<close>

datatype jserror = JSError (code: string) (message: string) (stack: string)

definition newError :: "string \<Rightarrow> jserror" where
  "newError m = JSError [] m (''Error: '' @ m)"

text \<open>What a global binding or a module cache entry can hold.\<close>

datatype gval =
    GConfig config
  | GExports string
  | GMember gval string
  | GResult string string
  | GObject

section \<open>The process and its environment\<close>

text \<open>
  Operations whose outcome is decided outside app.js, and the events the process leaves
  behind. The trace records every observable effect in program order, so that ordering
  properties are statements about a list. Arguments of calls are not recorded.
\<close>

datatype op =
    Resolve string
  | Load string
  | Call string
  | ReadFile string
  | WriteFile string

datatype event =
    Did op
  | Failed op jserror
  | Log string
  | ErrLog string
  | SpawnSync string
  | WatchFile string
  | On string

record proc =
  files :: "string \<rightharpoonup> string"
  packages :: "string list"
  modcache :: "string \<rightharpoonup> gval"
  globals :: "string \<rightharpoonup> gval"
  watchers :: "string list"
  listeners :: "string list"
  hasSend :: bool
  exported :: "string list"
  exited :: "int option"
  trace :: "event list"

text \<open>
  The environment. \<open>fault\<close> is an oracle for the operations app.js does not control: given
  the history so far it says whether the operation throws. \<open>evalConfig\<close> is Node evaluating
  the text of the configuration module. \<open>npmProvides\<close> is what the install command manages
  to add to node_modules (nothing when it fails). \<open>crashlogger\<close> is the classification
  returned by the module ./crashlogger. \<open>strictRejections\<close> is the platform default for an
  unhandled rejection when no listener is installed.
\<close>

record world =
  isMain :: bool
  fault :: "event list \<Rightarrow> op \<Rightarrow> jserror option"
  evalConfig :: "string \<Rightarrow> jserror + config"
  npmProvides :: "event list \<Rightarrow> string list"
  crashlogger :: "event list \<Rightarrow> jserror \<Rightarrow> string"
  strictRejections :: bool

section \<open>Statements: state passing with exceptions\<close>

type_synonym 'a js = "proc \<Rightarrow> (jserror + 'a) \<times> proc"

definition jsReturn :: "'a \<Rightarrow> 'a js" where
  "jsReturn x s = (Inr x, s)"

definition jsThrow :: "jserror \<Rightarrow> 'a js" where
  "jsThrow e s = (Inl e, s)"

definition jsBind :: "'a js \<Rightarrow> ('a \<Rightarrow> 'b js) \<Rightarrow> 'b js" where
  "jsBind m f s = (case m s of (Inl e, s') \<Rightarrow> (Inl e, s') | (Inr x, s') \<Rightarrow> f x s')"

text \<open>\<^verbatim>\<open>try { m } catch (e) { h(e) }\<close>\<close>

definition tryCatch :: "'a js \<Rightarrow> (jserror \<Rightarrow> 'a js) \<Rightarrow> 'a js" where
  "tryCatch m h s = (case m s of (Inl e, s') \<Rightarrow> h e s' | (Inr x, s') \<Rightarrow> (Inr x, s'))"

text \<open>
  \<^verbatim>\<open>try { m } finally { f }\<close>: the finaliser always runs; when it throws, its exception
  replaces the pending completion of \<open>m\<close>.
\<close>

definition tryFinally :: "'a js \<Rightarrow> unit js \<Rightarrow> 'a js" where
  "tryFinally m f s =
     (case m s of (r, s') \<Rightarrow>
        (case f s' of (Inl e, s'') \<Rightarrow> (Inl e, s'') | (Inr _, s'') \<Rightarrow> (r, s'')))"

text \<open>A sequence of statements stops at the first one that throws.\<close>

fun block :: "unit js list \<Rightarrow> unit js" where
  "block [] s = (Inr (), s)"
| "block (c # cs) s = (case c s of (Inl e, s') \<Rightarrow> (Inl e, s') | (Inr _, s') \<Rightarrow> block cs s')"

definition emit :: "event \<Rightarrow> unit js" where
  "emit ev s = (Inr (), s\<lparr>trace := trace s @ [ev]\<rparr>)"

definition failOp :: "op \<Rightarrow> jserror \<Rightarrow> 'a js" where
  "failOp p e s = (Inl e, s\<lparr>trace := trace s @ [Failed p e]\<rparr>)"

text \<open>A call into a module that is not part of app.js: it returns or throws, as the oracle says.\<close>

definition perform :: "world \<Rightarrow> op \<Rightarrow> unit js" where
  "perform w p s =
     (case fault w (trace s) p of
        Some e \<Rightarrow> failOp p e s
      | None \<Rightarrow> (Inr (), s\<lparr>trace := trace s @ [Did p]\<rparr>))"

section \<open>Node's module loader and file system\<close>

abbreviation cfgName :: string where "cfgName \<equiv> ''./config/config''"
abbreviation cfgPath :: string where "cfgPath \<equiv> ''config/config.js''"
abbreviation examplePath :: string where "examplePath \<equiv> ''config/config-example.js''"
abbreviation notFound :: string where "notFound \<equiv> ''MODULE_NOT_FOUND''"

text \<open>
  Where a module name resolves to. The configuration module is looked up in the modelled
  file system (only the \<^verbatim>\<open>.js\<close> candidate is modelled); the other relative modules are
  the repository's own files and always resolve; a bare name resolves when the package
  is installed.
\<close>

definition lookup :: "proc \<Rightarrow> string \<Rightarrow> string option" where
  "lookup s name =
     (if name = cfgName then (if files s cfgPath = None then None else Some cfgPath)
      else if take 2 name = ''./'' then Some name
      else if name \<in> set (packages s) then Some (''node_modules/'' @ name)
      else None)"

text \<open>\<^verbatim>\<open>require.resolve(name)\<close>: the path, or an exception whose code is MODULE_NOT_FOUND.\<close>

definition resolve :: "world \<Rightarrow> string \<Rightarrow> string js" where
  "resolve w name s =
     (case fault w (trace s) (Resolve name) of
        Some e \<Rightarrow> failOp (Resolve name) e s
      | None \<Rightarrow>
          (case lookup s name of
             None \<Rightarrow> failOp (Resolve name) (JSError notFound (''Cannot find module '' @ name) (''Error: Cannot find module '' @ name)) s
           | Some p \<Rightarrow> (Inr p, s)))"

text \<open>
  Running a module's top-level code the first time it is required. The configuration
  module is evaluated from its text; any other module loads or throws as the oracle says.
\<close>

definition evaluate :: "world \<Rightarrow> string \<Rightarrow> gval js" where
  "evaluate w p s =
     (if p = cfgPath then
        (case files s p of
           None \<Rightarrow> failOp (Load p) (JSError ''ENOENT'' (''no such file '' @ p) (''Error: no such file '' @ p)) s
         | Some src \<Rightarrow>
             (case evalConfig w src of
                Inl e \<Rightarrow> failOp (Load p) e s
              | Inr c \<Rightarrow> (Inr (GConfig c),
                   s\<lparr>modcache := (modcache s)(p \<mapsto> GConfig c), trace := trace s @ [Did (Load p)]\<rparr>)))
      else
        (case fault w (trace s) (Load p) of
           Some e \<Rightarrow> failOp (Load p) e s
         | None \<Rightarrow> (Inr (GExports p),
                   s\<lparr>modcache := (modcache s)(p \<mapsto> GExports p), trace := trace s @ [Did (Load p)]\<rparr>)))"

text \<open>\<^verbatim>\<open>require(name)\<close>: resolve, then the cached exports if there are any, else evaluate.\<close>

definition require :: "world \<Rightarrow> string \<Rightarrow> gval js" where
  "require w name =
     jsBind (resolve w name) (\<lambda>p s. case modcache s p of Some m \<Rightarrow> (Inr m, s) | None \<Rightarrow> evaluate w p s)"

definition readFileSync :: "world \<Rightarrow> string \<Rightarrow> string js" where
  "readFileSync w p s =
     (case fault w (trace s) (ReadFile p) of
        Some e \<Rightarrow> failOp (ReadFile p) e s
      | None \<Rightarrow>
          (case files s p of
             None \<Rightarrow> failOp (ReadFile p) (JSError ''ENOENT'' (''no such file '' @ p) (''Error: no such file '' @ p)) s
           | Some d \<Rightarrow> (Inr d, s)))"

definition writeFileSync :: "world \<Rightarrow> string \<Rightarrow> string \<Rightarrow> unit js" where
  "writeFileSync w p d s =
     (case fault w (trace s) (WriteFile p) of
        Some e \<Rightarrow> failOp (WriteFile p) e s
      | None \<Rightarrow> (Inr (), s\<lparr>files := (files s)(p \<mapsto> d), trace := trace s @ [Did (WriteFile p)]\<rparr>))"

text \<open>\<^verbatim>\<open>spawnSync('sh', ['-c', command], ...)\<close> blocks until the command ends and does not throw.\<close>

definition spawnSync :: "world \<Rightarrow> string \<Rightarrow> unit js" where
  "spawnSync w command s =
     (Inr (), s\<lparr>packages := packages s @ npmProvides w (trace s),
               trace := trace s @ [SpawnSync (''sh -c '' @ command)]\<rparr>)"

section \<open>Globals\<close>

definition setGlobal :: "string \<Rightarrow> gval \<Rightarrow> unit js" where
  "setGlobal g v s = (Inr (), s\<lparr>globals := (globals s)(g \<mapsto> v)\<rparr>)"

text \<open>Reading a global by its bare name throws a ReferenceError when it is not defined.\<close>

definition getGlobal :: "string \<Rightarrow> gval js" where
  "getGlobal g s =
     (case globals s g of
        None \<Rightarrow> (Inl (JSError [] (g @ '' is not defined'') (''ReferenceError: '' @ g @ '' is not defined'')), s)
      | Some v \<Rightarrow> (Inr v, s))"

text \<open>\<^verbatim>\<open>global.g = require(name)\<close>\<close>

definition setGlobalRequire :: "world \<Rightarrow> string \<Rightarrow> string \<Rightarrow> unit js" where
  "setGlobalRequire w g name = jsBind (require w name) (setGlobal g)"

text \<open>\<^verbatim>\<open>G.method()\<close> on a global \<open>G\<close> defined by a module outside app.js.\<close>

definition callGlobal :: "world \<Rightarrow> string \<Rightarrow> string \<Rightarrow> unit js" where
  "callGlobal w g method = jsBind (getGlobal g) (\<lambda>_. perform w (Call (g @ ''.'' @ method)))"

text \<open>The value of \<^verbatim>\<open>Config.k\<close>; a binding that is not a configuration object has no options.\<close>

definition configOption :: "string \<Rightarrow> jsval js" where
  "configOption k =
     jsBind (getGlobal ''Config'')
       (\<lambda>v. jsReturn (case v of GConfig c \<Rightarrow> optionValue c k | _ \<Rightarrow> JUndefined))"

text \<open>\<^verbatim>\<open>if (Config.k) { body }\<close>\<close>

definition ifConfig :: "string \<Rightarrow> unit js \<Rightarrow> unit js" where
  "ifConfig k body = jsBind (configOption k) (\<lambda>v. if truthy v then body else jsReturn ())"


text \<open>\<^verbatim>\<open>if (global.g) { body }\<close>: a property read, so no ReferenceError.\<close>

definition ifGlobal :: "string \<Rightarrow> unit js \<Rightarrow> unit js" where
  "ifGlobal g body s = (if globals s g = None then (Inr (), s) else body s)"

section \<open>app.js: the startup sequence\<close>

subsection \<open>Lines 55 to 63: dependencies\<close>

definition dependencyCheck :: "world \<Rightarrow> unit js" where
  "dependencyCheck w =
     tryCatch (jsBind (resolve w ''sockjs'') (\<lambda>_. jsReturn ()))
       (\<lambda>e. if \<not> isMain w then jsThrow (newError ''Dependencies unmet'')
            else block
              [emit (Log ''Installing dependencies: `npm install --production`...''),
               spawnSync w ''npm install --production''])"

subsection \<open>Lines 69 to 96: configuration\<close>

definition copyExample :: "world \<Rightarrow> unit js" where
  "copyExample w = jsBind (readFileSync w examplePath) (writeFileSync w cfgPath)"

definition locateConfig :: "world \<Rightarrow> unit js" where
  "locateConfig w =
     tryCatch (jsBind (resolve w cfgName) (\<lambda>_. jsReturn ()))
       (\<lambda>err. if code err \<noteq> notFound then jsThrow err
              else block
                [emit (Log ''config.js doesn't exist - creating one with default settings...''),
                 copyExample w])"

definition loadConfig :: "world \<Rightarrow> unit js" where
  "loadConfig w = tryFinally (locateConfig w) (setGlobalRequire w ''Config'' cfgName)"

definition watchFile :: "string \<Rightarrow> unit js" where
  "watchFile p s = (Inr (), s\<lparr>watchers := watchers s @ [p], trace := trace s @ [WatchFile p]\<rparr>)"

definition watchConfig :: "world \<Rightarrow> unit js" where
  "watchConfig w = ifConfig ''watchconfig'' (jsBind (resolve w cfgName) watchFile)"

subsection \<open>Lines 102 to 134: the globals\<close>

definition ladders :: "jsval \<Rightarrow> string" where
  "ladders remoteladder = (if truthy remoteladder then ''./ladders-remote'' else ''./ladders'')"

definition deleteProcessSend :: "unit js" where
  "deleteProcessSend s = (Inr (), s\<lparr>hasSend := False\<rparr>)"

definition setupGlobals :: "world \<Rightarrow> unit js" where
  "setupGlobals w = block
     [setGlobalRequire w ''sqlite3'' ''sqlite3'',
      jsBind (require w ''origindb'')
        (\<lambda>_. jsBind (perform w (Call ''origindb'')) (\<lambda>_. setGlobal ''Db'' (GResult ''origindb'' ''config/db''))),
      setGlobalRequire w ''Monitor'' ''./monitor'',
      setGlobalRequire w ''Tools'' ''./tools'',
      jsBind (getGlobal ''Tools'') (\<lambda>t. setGlobal ''toId'' (GMember t ''getId'')),
      setGlobalRequire w ''LoginServer'' ''./loginserver'',
      jsBind (configOption ''remoteladder'') (\<lambda>v. setGlobalRequire w ''Ladders'' (ladders v)),
      setGlobalRequire w ''Users'' ''./users'',
      setGlobalRequire w ''Punishments'' ''./punishments'',
      setGlobalRequire w ''Chat'' ''./chat'',
      setGlobalRequire w ''Rooms'' ''./rooms'',
      setGlobalRequire w ''Tells'' ''./tells.js'',
      deleteProcessSend,
      setGlobalRequire w ''Verifier'' ''./verifier'',
      callGlobal w ''Verifier'' ''PM.spawn'',
      setGlobal ''SG'' GObject,
      setGlobalRequire w ''Tournaments'' ''./tournaments'',
      setGlobalRequire w ''Dnsbl'' ''./dnsbl'',
      callGlobal w ''Dnsbl'' ''loadDatacenters'']"

subsection \<open>Lines 136 to 176: the crash guard\<close>

definition processOn :: "string \<Rightarrow> unit js" where
  "processOn ev s = (Inr (), s\<lparr>listeners := listeners s @ [ev], trace := trace s @ [On ev]\<rparr>)"

definition crashGuard :: "unit js" where
  "crashGuard = ifConfig ''crashguard''
     (block [processOn ''uncaughtException'', processOn ''unhandledRejection'', processOn ''exit''])"

subsection \<open>Lines 182 to 212: networking, the last global, the REPL\<close>

definition exportListen :: "unit js" where
  "exportListen s = (Inr (), s\<lparr>exported := exported s @ [''listen'']\<rparr>)"

text \<open>\<^verbatim>\<open>exports.listen\<close>, for a process that loads app.js as a module.\<close>

definition listen :: "world \<Rightarrow> unit js" where
  "listen w = callGlobal w ''Sockets'' ''listen''"

definition networking :: "world \<Rightarrow> unit js" where
  "networking w = block
     [setGlobalRequire w ''Sockets'' ''./sockets'',
      exportListen,
      (if isMain w then callGlobal w ''Sockets'' ''listen'' else jsReturn ())]"

definition lastGlobal :: "world \<Rightarrow> unit js" where
  "lastGlobal w = block
     [callGlobal w ''Tools'' ''includeFormats'',
      setGlobalRequire w ''TeamValidator'' ''./team-validator'',
      callGlobal w ''TeamValidator'' ''PM.spawn'']"

definition startRepl :: "world \<Rightarrow> unit js" where
  "startRepl w = jsBind (require w ''./repl'') (\<lambda>_. perform w (Call ''repl.start''))"

text \<open>The whole module body, top to bottom.\<close>

definition startup :: "world \<Rightarrow> unit js" where
  "startup w = block
     [dependencyCheck w,
      loadConfig w,
      watchConfig w,
      setupGlobals w,
      crashGuard,
      networking w,
      lastGlobal w,
      startRepl w]"


section \<open>app.js: the callbacks\<close>

subsection \<open>Lines 85 to 95: the configuration watcher\<close>

definition deleteCache :: "string \<Rightarrow> unit js" where
  "deleteCache p s = (Inr (), s\<lparr>modcache := (modcache s)(p := None)\<rparr>)"

text \<open>The body of the \<^verbatim>\<open>try\<close> in the watcher.\<close>

definition reloadConfig :: "world \<Rightarrow> string \<Rightarrow> unit js" where
  "reloadConfig w configPath = block
     [deleteCache configPath,
      setGlobalRequire w ''Config'' cfgName,
      ifGlobal ''Users'' (callGlobal w ''Users'' ''cacheGroupData''),
      emit (Log ''Reloaded config/config.js'')]"

text \<open>
  The listener given to \<^verbatim>\<open>fs.watchFile\<close>; it gets the modification times of the
  current and the previous stat, in milliseconds.
\<close>

definition watchCallback :: "world \<Rightarrow> string \<Rightarrow> int \<Rightarrow> int \<Rightarrow> proc \<Rightarrow> proc" where
  "watchCallback w configPath currMtime prevMtime s =
     (if currMtime \<le> prevMtime then s
      else snd (tryCatch (reloadConfig w configPath)
                  (\<lambda>e. emit (Log (''Error reloading config/config.js: '' @ stack e))) s))"

text \<open>Node reporting a change of a watched file: every listener registered for it runs.\<close>

definition fileChanged :: "world \<Rightarrow> string \<Rightarrow> int \<Rightarrow> int \<Rightarrow> proc \<Rightarrow> proc" where
  "fileChanged w path currMtime prevMtime s =
     fold (\<lambda>p st. if p = path then watchCallback w p currMtime prevMtime st else st) (watchers s) s"

subsection \<open>Lines 138 to 148: uncaught exceptions and unhandled rejections\<close>

text \<open>\<^verbatim>\<open>require('./crashlogger')(err, 'The main process')\<close>\<close>

definition crashType :: "world \<Rightarrow> jserror \<Rightarrow> string js" where
  "crashType w err =
     jsBind (require w ''./crashlogger'')
       (\<lambda>_ s. case fault w (trace s) (Call ''crashlogger'') of
                Some e \<Rightarrow> failOp (Call ''crashlogger'') e s
              | None \<Rightarrow> (Inr (crashlogger w (trace s) err), s\<lparr>trace := trace s @ [Did (Call ''crashlogger'')]\<rparr>))"

definition onUncaughtException :: "world \<Rightarrow> jserror \<Rightarrow> unit js" where
  "onUncaughtException w err =
     jsBind (crashType w err)
       (\<lambda>t. if t = ''lockdown'' then callGlobal w ''Rooms'' ''global.startLockdown''
            else callGlobal w ''Rooms'' ''global.reportCrash'')"

definition onUnhandledRejection :: "jserror \<Rightarrow> unit js" where
  "onUnhandledRejection err = jsThrow err"

subsection \<open>Lines 149 to 175: exit diagnostics\<close>

definition exitCodes :: "(int \<times> string) list" where
  "exitCodes =
     [(1, ''Uncaught Fatal Exception''),
      (2, ''Misuse of shell builtins''),
      (3, ''Internal JavaScript Parse Error''),
      (4, ''Internal JavaScript Evaluation Failure''),
      (5, ''Fatal Error''),
      (6, ''Non-function Internal Exception Handler''),
      (7, ''Internal Exception Handler Run-Time Failure''),
      (8, ''Unused Error Code. Formerly used by nodejs. Sometimes indicate a uncaught exception''),
      (9, ''Invalid Argument''),
      (10, ''Internal JavaScript Run-Time Failure''),
      (11, ''A sysadmin forced an emergency exit''),
      (12, ''Invalid Debug Argument''),
      (130, ''Control-C via Terminal or Command Prompt'')]"

text \<open>\<^verbatim>\<open>exitCodes[code]\<close> is tested for truthiness: a missing or empty entry falls through.\<close>

definition exitInfo :: "int \<Rightarrow> string" where
  "exitInfo c =
     (case map_of exitCodes c of
        Some d \<Rightarrow> if d \<noteq> [] then d else if c > 128 then ''Signal Exit'' else ''Unused Error Code''
      | None \<Rightarrow> if c > 128 then ''Signal Exit'' else ''Unused Error Code'')"

text \<open>Decimal text of a number, as string concatenation produces it.\<close>

fun showNat :: "nat \<Rightarrow> string" where
  "showNat n =
     (if n < 10 then [''0123456789'' ! n]
      else showNat (n div 10) @ [''0123456789'' ! (n mod 10)])"

declare showNat.simps [simp del]

definition showInt :: "int \<Rightarrow> string" where
  "showInt i = (if i < 0 then ''-'' @ showNat (nat (- i)) else showNat (nat i))"

definition onExit :: "int \<Rightarrow> event list" where
  "onExit c =
     (if c \<noteq> 0 then
        [Log [],
         ErrLog (''WARNING: Process exiting with code '' @ showInt c),
         ErrLog (''Exit code details: '' @ exitInfo c @ ''.''),
         ErrLog ''Refer to https://github.com/nodejs/node-v0.x-archive/blob/master/doc/api/process.markdown#exit-codes for more details. The process will now exit.'']
      else [])"

section \<open>Node dispatching process events\<close>

text \<open>
  How the platform drives the listeners app.js registers. A listener registered several
  times runs once per registration.
\<close>

definition registered :: "string \<Rightarrow> proc \<Rightarrow> nat" where
  "registered ev s = length (filter (\<lambda>x. x = ev) (listeners s))"

text \<open>The process ends with code \<open>c\<close>: the exit listeners run, then nothing else does.\<close>

definition processExit :: "int \<Rightarrow> proc \<Rightarrow> proc" where
  "processExit c s =
     s\<lparr>trace := trace s @ concat (replicate (registered ''exit'' s) (onExit c)), exited := Some c\<rparr>"

fun runListeners :: "nat \<Rightarrow> unit js \<Rightarrow> unit js" where
  "runListeners 0 h s = (Inr (), s)"
| "runListeners (Suc n) h s =
     (case h s of (Inl e, s') \<Rightarrow> (Inl e, s') | (Inr _, s') \<Rightarrow> runListeners n h s')"

text \<open>
  An exception nobody caught. Without a listener the stack is printed and the process
  ends with code 1; with listeners they run and the process goes on, unless a listener
  itself throws, which ends the process with code 7.
\<close>

definition uncaughtException :: "world \<Rightarrow> jserror \<Rightarrow> proc \<Rightarrow> proc" where
  "uncaughtException w err s =
     (if registered ''uncaughtException'' s = 0
      then processExit 1 (s\<lparr>trace := trace s @ [ErrLog (stack err)]\<rparr>)
      else (case runListeners (registered ''uncaughtException'' s) (onUncaughtException w err) s of
              (Inr _, s') \<Rightarrow> s'
            | (Inl e, s') \<Rightarrow> processExit 7 s'))"

text \<open>
  A rejection nobody handled. With the listener of app.js installed, the listener throws
  the rejection, and an exception escaping a listener is an uncaught exception. Without
  one, the platform default applies.
\<close>

definition unhandledRejection :: "world \<Rightarrow> jserror \<Rightarrow> proc \<Rightarrow> proc" where
  "unhandledRejection w err s =
     (if registered ''unhandledRejection'' s = 0
      then (if strictRejections w then uncaughtException w err s
            else s\<lparr>trace := trace s @ [ErrLog (''UnhandledPromiseRejectionWarning: '' @ stack err)]\<rparr>)
      else (case onUnhandledRejection err s of
              (Inl e, s') \<Rightarrow> uncaughtException w e s'
            | (Inr _, s') \<Rightarrow> s'))"

text \<open>
  Whether \<^verbatim>\<open>Rooms.global.startLockdown\<close> has been called, and has returned, so far. What
  the call does inside the rooms module is outside app.js.
\<close>

definition lockdownStarted :: "proc \<Rightarrow> bool" where
  "lockdownStarted s = (Did (Call ''Rooms.global.startLockdown'') \<in> set (trace s))"


section \<open>Observations\<close>

text \<open>The modules whose top-level code ran, in the order in which they ran.\<close>

fun loads :: "event list \<Rightarrow> string list" where
  "loads [] = []"
| "loads (Did (Load p) # es) = p # loads es"
| "loads (e # es) = loads es"

text \<open>
  Two devices for reasoning about runs that succeed. In the quiet environment no
  operation outside app.js fails. A statement agrees with another one when it does the
  same wherever the other one returns normally: a run in which nothing failed is a run
  in the quiet environment.
\<close>

definition quiet :: "world \<Rightarrow> world" where
  "quiet w = w\<lparr>fault := (\<lambda>h p. None)\<rparr>"

definition agrees :: "'a js \<Rightarrow> 'a js \<Rightarrow> bool" where
  "agrees c' c = (\<forall>s x. fst (c s) = Inr x \<longrightarrow> c' s = c s)"

section \<open>A concrete environment\<close>

text \<open>
  Three configuration files and an environment in which nothing outside app.js fails:
  the inputs at which the theorems below are instantiated.
\<close>

abbreviation guardedText :: string where
  "guardedText \<equiv> ''exports.crashguard = true; exports.watchconfig = true;''"

abbreviation plainText :: string where
  "plainText \<equiv> ''exports.watchconfig = true;''"

abbreviation remoteText :: string where
  "remoteText \<equiv> ''exports.crashguard = true; exports.watchconfig = true; exports.remoteladder = true;''"

definition exampleEval :: "string \<Rightarrow> jserror + config" where
  "exampleEval src =
     (if src = guardedText then Inr [(''crashguard'', JBool True), (''watchconfig'', JBool True)]
      else if src = plainText then Inr [(''watchconfig'', JBool True)]
      else if src = remoteText
        then Inr [(''crashguard'', JBool True), (''watchconfig'', JBool True), (''remoteladder'', JBool True)]
      else Inl (JSError [] ''Unexpected token'' ''SyntaxError: Unexpected token''))"

definition exampleWorld :: world where
  "exampleWorld =
     \<lparr>isMain = True,
      fault = (\<lambda>h p. None),
      evalConfig = exampleEval,
      npmProvides = (\<lambda>h. []),
      crashlogger = (\<lambda>h e. if message e = ''out of memory'' then ''lockdown'' else ''crash''),
      strictRejections = False\<rparr>"

text \<open>A process that has not run anything yet, with the given files and installed packages.\<close>

definition freshProc :: "(string \<rightharpoonup> string) \<Rightarrow> string list \<Rightarrow> proc" where
  "freshProc fs pkgs =
     \<lparr>files = fs, packages = pkgs, modcache = Map.empty, globals = Map.empty, watchers = [],
      listeners = [], hasSend = True, exported = [], exited = None, trace = []\<rparr>"

abbreviation allPackages :: "string list" where
  "allPackages \<equiv> [''sockjs'', ''sqlite3'', ''origindb'']"

text \<open>
  A running server: the state after a complete startup with the first configuration
  file. Then the operator edits the file: once to a text that enables the remote ladder,
  once to a text that does not parse.
\<close>

definition guardedProc :: proc where
  "guardedProc = snd (startup exampleWorld (freshProc [cfgPath \<mapsto> guardedText] allPackages))"

definition remoteEdit :: proc where
  "remoteEdit = guardedProc\<lparr>files := [cfgPath \<mapsto> remoteText]\<rparr>"

definition brokenEdit :: proc where
  "brokenEdit = guardedProc\<lparr>files := [cfgPath \<mapsto> ''exports.crashguard = ;'']\<rparr>"

text \<open>
  A machine without network access: the install command adds nothing, and the module
  ./sockets cannot load because the package it needs is missing.
\<close>

definition offlineWorld :: world where
  "offlineWorld = exampleWorld
     \<lparr>fault := (\<lambda>h p. if p = Load ''./sockets''
        then Some (JSError notFound ''Cannot find module sockjs'' ''Error: Cannot find module sockjs'')
        else None)\<rparr>"

text \<open>
  A machine on which the first attempt to resolve the configuration module fails for a
  reason other than absence, and every later attempt works.
\<close>

definition flakyWorld :: world where
  "flakyWorld = exampleWorld
     \<lparr>fault := (\<lambda>h p. if p = Resolve cfgName \<and> h = []
        then Some (JSError ''EACCES'' ''permission denied'' ''Error: permission denied'')
        else None)\<rparr>"

section \<open>Unfolding\<close>

lemmas monad_defs = jsBind_def jsReturn_def jsThrow_def tryCatch_def tryFinally_def emit_def
  failOp_def perform_def

lemmas node_defs = resolve_def lookup_def evaluate_def require_def readFileSync_def
  writeFileSync_def spawnSync_def setGlobal_def getGlobal_def setGlobalRequire_def
  callGlobal_def configOption_def ifConfig_def ifGlobal_def optionValue_def newError_def

lemmas app_defs = startup_def dependencyCheck_def loadConfig_def locateConfig_def
  copyExample_def watchConfig_def watchFile_def setupGlobals_def ladders_def
  deleteProcessSend_def crashGuard_def processOn_def networking_def exportListen_def
  lastGlobal_def startRepl_def

lemmas example_defs = exampleWorld_def exampleEval_def freshProc_def

section \<open>The crash guard\<close>

lemma crashGuard_on:
  "globals s0 ''Config'' = Some (GConfig c) \<Longrightarrow> truthy (optionValue c ''crashguard'') \<Longrightarrow>
   crashGuard s0 =
     (Inr (), s0\<lparr>listeners := listeners s0 @ [''uncaughtException'', ''unhandledRejection'', ''exit''],
                  trace := trace s0 @ [On ''uncaughtException'', On ''unhandledRejection'', On ''exit'']\<rparr>)"
  by (simp add: crashGuard_def ifConfig_def configOption_def getGlobal_def jsBind_def
      jsReturn_def processOn_def)

lemma crashGuard_off:
  "globals s0 ''Config'' = Some (GConfig c) \<Longrightarrow> \<not> truthy (optionValue c ''crashguard'') \<Longrightarrow>
   crashGuard s0 = (Inr (), s0)"
  by (simp add: crashGuard_def ifConfig_def configOption_def getGlobal_def jsBind_def jsReturn_def)

section \<open>Exit diagnostics\<close>

lemma showInt_1: "showInt 1 = ''1''"
  by code_simp

lemma exitInfo_absent:
  "map_of exitCodes k = None \<Longrightarrow>
   exitInfo k = (if k > 128 then ''Signal Exit'' else ''Unused Error Code'')"
  by (simp add: exitInfo_def)

lemma exitCodes_nonempty: "map_of exitCodes k = Some d \<Longrightarrow> d \<noteq> []"
  by (auto simp: exitCodes_def split: if_splits)

lemma exitInfo_present: "map_of exitCodes k = Some d \<Longrightarrow> exitInfo k = d"
  using exitCodes_nonempty [of k d] by (simp add: exitInfo_def)

text \<open>
  Claim C5, as amended. The exit listener exists only when the crash guard was installed,
  that is when \<^verbatim>\<open>Config.crashguard\<close> was truthy at startup. In that case: exit code 0
  prints nothing; exit code 1 prints the diagnostic "Uncaught Fatal Exception"; every
  non-zero code prints the warning, the details and the reference line; a code in the
  table gets the table's text, also when it is above 128 (130); a code that is not in the
  table is a "Signal Exit" above 128 (135) and an "Unused Error Code" otherwise.
\<close>

theorem exit_diagnostics:
  assumes "globals s0 ''Config'' = Some (GConfig c)"
    and "truthy (optionValue c ''crashguard'')"
    and "registered ''exit'' s0 = 0"
    and "s = snd (crashGuard s0)"
  shows "trace (processExit 0 s) = trace s
    \<and> trace (processExit 1 s) = trace s @
         [Log [], ErrLog ''WARNING: Process exiting with code 1'',
          ErrLog ''Exit code details: Uncaught Fatal Exception.'',
          ErrLog ''Refer to https://github.com/nodejs/node-v0.x-archive/blob/master/doc/api/process.markdown#exit-codes for more details. The process will now exit.'']
    \<and> (\<forall>k. k \<noteq> 0 \<longrightarrow> trace (processExit k s) = trace s @
         [Log [], ErrLog (''WARNING: Process exiting with code '' @ showInt k),
          ErrLog (''Exit code details: '' @ exitInfo k @ ''.''),
          ErrLog ''Refer to https://github.com/nodejs/node-v0.x-archive/blob/master/doc/api/process.markdown#exit-codes for more details. The process will now exit.''])
    \<and> (\<forall>k d. map_of exitCodes k = Some d \<longrightarrow> exitInfo k = d)
    \<and> (\<forall>k. map_of exitCodes k = None \<longrightarrow>
          exitInfo k = (if k > 128 then ''Signal Exit'' else ''Unused Error Code''))
    \<and> map_of exitCodes 135 = None \<and> exitInfo 135 = ''Signal Exit''
    \<and> map_of exitCodes 130 = Some ''Control-C via Terminal or Command Prompt''"
proof -
  have reg: "registered ''exit'' s = 1"
    using assms by (simp add: crashGuard_on registered_def)
  have a: "trace (processExit 0 s) = trace s"
    by (simp add: processExit_def onExit_def)
  have b: "\<forall>k. k \<noteq> 0 \<longrightarrow> trace (processExit k s) = trace s @
         [Log [], ErrLog (''WARNING: Process exiting with code '' @ showInt k),
          ErrLog (''Exit code details: '' @ exitInfo k @ ''.''),
          ErrLog ''Refer to https://github.com/nodejs/node-v0.x-archive/blob/master/doc/api/process.markdown#exit-codes for more details. The process will now exit.'']"
    using reg by (simp add: processExit_def onExit_def)
  have t1: "map_of exitCodes 1 = Some ''Uncaught Fatal Exception''"
    by (simp add: exitCodes_def)
  have c: "trace (processExit 1 s) = trace s @
         [Log [], ErrLog ''WARNING: Process exiting with code 1'',
          ErrLog ''Exit code details: Uncaught Fatal Exception.'',
          ErrLog ''Refer to https://github.com/nodejs/node-v0.x-archive/blob/master/doc/api/process.markdown#exit-codes for more details. The process will now exit.'']"
    using b exitInfo_present [OF t1] showInt_1 by simp
  have d: "map_of exitCodes 135 = None"
    by (simp add: exitCodes_def)
  have e: "exitInfo 135 = ''Signal Exit''"
    using exitInfo_absent [OF d] by simp
  have f: "map_of exitCodes 130 = Some ''Control-C via Terminal or Command Prompt''"
    by (simp add: exitCodes_def)
  show ?thesis
    using a b c d e f exitInfo_present exitInfo_absent by blast
qed


lemma showInt_135: "showInt 135 = ''135''"
  by code_simp

theorem exit_diagnostics_witness:
  "trace (processExit 1 (snd (crashGuard (snd (loadConfig exampleWorld
      (freshProc [cfgPath \<mapsto> guardedText] allPackages))))))
   = [Did (Load cfgPath), On ''uncaughtException'', On ''unhandledRejection'', On ''exit'',
      Log [], ErrLog ''WARNING: Process exiting with code 1'',
      ErrLog ''Exit code details: Uncaught Fatal Exception.'',
      ErrLog ''Refer to https://github.com/nodejs/node-v0.x-archive/blob/master/doc/api/process.markdown#exit-codes for more details. The process will now exit.'']
   \<and> trace (processExit 135 (snd (crashGuard (snd (loadConfig exampleWorld
      (freshProc [cfgPath \<mapsto> guardedText] allPackages))))))
   = [Did (Load cfgPath), On ''uncaughtException'', On ''unhandledRejection'', On ''exit'',
      Log [], ErrLog ''WARNING: Process exiting with code 135'',
      ErrLog ''Exit code details: Signal Exit.'',
      ErrLog ''Refer to https://github.com/nodejs/node-v0.x-archive/blob/master/doc/api/process.markdown#exit-codes for more details. The process will now exit.'']
   \<and> exitInfo 64 = ''Unused Error Code''
   \<and> exitInfo 130 = ''Control-C via Terminal or Command Prompt''"
proof -
  let ?s0 = "snd (loadConfig exampleWorld (freshProc [cfgPath \<mapsto> guardedText] allPackages))"
  let ?c = "[(''crashguard'', JBool True), (''watchconfig'', JBool True)]"
  have h1: "globals ?s0 ''Config'' = Some (GConfig ?c)"
    by (simp add: monad_defs node_defs app_defs example_defs)
  have h2: "truthy (optionValue ?c ''crashguard'')"
    by (simp add: optionValue_def)
  have h3: "registered ''exit'' ?s0 = 0"
    by (simp add: monad_defs node_defs app_defs example_defs registered_def)
  have t0: "trace (snd (crashGuard ?s0))
      = [Did (Load cfgPath), On ''uncaughtException'', On ''unhandledRejection'', On ''exit'']"
    by (simp add: monad_defs node_defs app_defs example_defs)
  have n: "map_of exitCodes 64 = None"
    by (simp add: exitCodes_def)
  from exit_diagnostics [OF h1 h2 h3 refl] t0 n showInt_135 show ?thesis
    by simp
qed

text \<open>
  A server whose configuration does not enable the crash guard starts normally and has no
  exit listener.
\<close>

lemma startup_plain:
  "(case startup exampleWorld (freshProc [cfgPath \<mapsto> plainText] allPackages) of
      (r, s) \<Rightarrow> r = Inr () \<and> listeners s = [])"
  by (simp add: monad_defs node_defs app_defs example_defs)

text \<open>
  Claim C5 as stated fails there: the process ends with exit code 1 and no diagnostic is
  printed.
\<close>

theorem exit_diagnostics_counterexample:
  "fst (startup exampleWorld (freshProc [cfgPath \<mapsto> plainText] allPackages)) = Inr ()
   \<and> trace (processExit 1 (snd (startup exampleWorld (freshProc [cfgPath \<mapsto> plainText] allPackages))))
     = trace (snd (startup exampleWorld (freshProc [cfgPath \<mapsto> plainText] allPackages)))"
  using startup_plain
  by (simp add: processExit_def registered_def split: prod.splits)


section \<open>The module loader\<close>

text \<open>What \<^verbatim>\<open>require\<close> leaves alone, and what it does on the configuration module.\<close>

lemma require_frame:
  "globals (snd (require w n s)) = globals s
   \<and> files (snd (require w n s)) = files s
   \<and> packages (snd (require w n s)) = packages s
   \<and> watchers (snd (require w n s)) = watchers s
   \<and> listeners (snd (require w n s)) = listeners s
   \<and> hasSend (snd (require w n s)) = hasSend s
   \<and> exported (snd (require w n s)) = exported s
   \<and> exited (snd (require w n s)) = exited s"
  by (simp add: require_def resolve_def evaluate_def jsBind_def failOp_def
      split: option.splits sum.splits prod.splits)

lemma require_modcache:
  "q \<noteq> cfgPath \<Longrightarrow> modcache (snd (require w cfgName s)) q = modcache s q"
  by (simp add: require_def resolve_def evaluate_def jsBind_def failOp_def lookup_def
      split: option.splits sum.splits prod.splits)

lemma require_calls:
  "Did (Call x) \<in> set (trace (snd (require w n s))) \<Longrightarrow> Did (Call x) \<in> set (trace s)"
  by (simp add: require_def resolve_def evaluate_def jsBind_def failOp_def
      split: option.splits sum.splits prod.splits if_splits)

lemma require_trace:
  "\<exists>evs. trace (snd (require w n s)) = trace s @ evs"
  by (simp add: require_def resolve_def evaluate_def jsBind_def failOp_def
      split: option.splits sum.splits prod.splits)

lemma require_parse_error:
  "files s cfgPath = Some src \<Longrightarrow> evalConfig w src = Inl e \<Longrightarrow>
   fault w (trace s) (Resolve cfgName) = None \<Longrightarrow> modcache s cfgPath = None \<Longrightarrow>
   require w cfgName s = (Inl e, s\<lparr>trace := trace s @ [Failed (Load cfgPath) e]\<rparr>)"
  by (simp add: require_def resolve_def lookup_def evaluate_def jsBind_def failOp_def)

lemma require_parse_ok:
  "files s cfgPath = Some src \<Longrightarrow> evalConfig w src = Inr c \<Longrightarrow>
   fault w (trace s) (Resolve cfgName) = None \<Longrightarrow> modcache s cfgPath = None \<Longrightarrow>
   require w cfgName s = (Inr (GConfig c),
     s\<lparr>modcache := (modcache s)(cfgPath \<mapsto> GConfig c), trace := trace s @ [Did (Load cfgPath)]\<rparr>)"
  by (simp add: require_def resolve_def lookup_def evaluate_def jsBind_def failOp_def)

section \<open>A running server\<close>

lemma startup_guarded:
  "(case startup exampleWorld (freshProc [cfgPath \<mapsto> guardedText] allPackages) of
      (r, s) \<Rightarrow> r = Inr ()
        \<and> listeners s = [''uncaughtException'', ''unhandledRejection'', ''exit'']
        \<and> watchers s = [cfgPath]
        \<and> exited s = None
        \<and> globals s ''Config'' = Some (GConfig [(''crashguard'', JBool True), (''watchconfig'', JBool True)])
        \<and> globals s ''Ladders'' = Some (GExports ''./ladders'')
        \<and> globals s ''Users'' = Some (GExports ''./users'')
        \<and> globals s ''Rooms'' = Some (GExports ''./rooms'')
        \<and> modcache s ''./crashlogger'' = None
        \<and> modcache s ''./users'' = Some (GExports ''./users'')
        \<and> trace s =
           [Did (Load cfgPath), WatchFile cfgPath,
            Did (Load ''node_modules/sqlite3''), Did (Load ''node_modules/origindb''),
            Did (Call ''origindb''), Did (Load ''./monitor''), Did (Load ''./tools''),
            Did (Load ''./loginserver''), Did (Load ''./ladders''),
            Did (Load ''./users''), Did (Load ''./punishments''),
            Did (Load ''./chat''), Did (Load ''./rooms''), Did (Load ''./tells.js''),
            Did (Load ''./verifier''), Did (Call ''Verifier.PM.spawn''),
            Did (Load ''./tournaments''), Did (Load ''./dnsbl''),
            Did (Call ''Dnsbl.loadDatacenters''), On ''uncaughtException'',
            On ''unhandledRejection'', On ''exit'', Did (Load ''./sockets''),
            Did (Call ''Sockets.listen''), Did (Call ''Tools.includeFormats''),
            Did (Load ''./team-validator''), Did (Call ''TeamValidator.PM.spawn''),
            Did (Load ''./repl''), Did (Call ''repl.start'')])"
  by (simp add: monad_defs node_defs app_defs example_defs)

lemma guardedProc_facts:
  "listeners guardedProc = [''uncaughtException'', ''unhandledRejection'', ''exit'']"
  "watchers guardedProc = [cfgPath]"
  "exited guardedProc = None"
  "globals guardedProc ''Config'' = Some (GConfig [(''crashguard'', JBool True), (''watchconfig'', JBool True)])"
  "globals guardedProc ''Ladders'' = Some (GExports ''./ladders'')"
  "globals guardedProc ''Users'' = Some (GExports ''./users'')"
  "globals guardedProc ''Rooms'' = Some (GExports ''./rooms'')"
  "modcache guardedProc ''./crashlogger'' = None"
  "modcache guardedProc ''./users'' = Some (GExports ''./users'')"
  using startup_guarded by (simp_all add: guardedProc_def split: prod.splits)

lemma guardedProc_trace:
  "trace guardedProc =
           [Did (Load cfgPath), WatchFile cfgPath,
            Did (Load ''node_modules/sqlite3''), Did (Load ''node_modules/origindb''),
            Did (Call ''origindb''), Did (Load ''./monitor''), Did (Load ''./tools''),
            Did (Load ''./loginserver''), Did (Load ''./ladders''),
            Did (Load ''./users''), Did (Load ''./punishments''),
            Did (Load ''./chat''), Did (Load ''./rooms''), Did (Load ''./tells.js''),
            Did (Load ''./verifier''), Did (Call ''Verifier.PM.spawn''),
            Did (Load ''./tournaments''), Did (Load ''./dnsbl''),
            Did (Call ''Dnsbl.loadDatacenters''), On ''uncaughtException'',
            On ''unhandledRejection'', On ''exit'', Did (Load ''./sockets''),
            Did (Call ''Sockets.listen''), Did (Call ''Tools.includeFormats''),
            Did (Load ''./team-validator''), Did (Call ''TeamValidator.PM.spawn''),
            Did (Load ''./repl''), Did (Call ''repl.start'')]"
  using startup_guarded by (simp add: guardedProc_def split: prod.splits)

lemma exampleWorld_fault: "fault exampleWorld h p = None"
  by (simp add: exampleWorld_def)

section \<open>The configuration watcher\<close>

text \<open>The watcher along each of its paths.\<close>

lemma watchCallback_old:
  "currMtime \<le> prevMtime \<Longrightarrow> watchCallback w p currMtime prevMtime s = s"
  by (simp add: watchCallback_def)

lemma watchCallback_failure:
  assumes "prevMtime < currMtime"
    and "require w cfgName (snd (deleteCache p s)) = (Inl e, s1)"
  shows "watchCallback w p currMtime prevMtime s =
           s1\<lparr>trace := trace s1 @ [Log (''Error reloading config/config.js: '' @ stack e)]\<rparr>"
  using assms
  by (simp add: watchCallback_def reloadConfig_def tryCatch_def setGlobalRequire_def jsBind_def
      emit_def deleteCache_def)

lemma watchCallback_no_users:
  assumes "prevMtime < currMtime"
    and "require w cfgName (snd (deleteCache p s)) = (Inr v, s1)"
    and "globals s1 ''Users'' = None"
  shows "watchCallback w p currMtime prevMtime s =
           s1\<lparr>globals := (globals s1)(''Config'' \<mapsto> v),
              trace := trace s1 @ [Log ''Reloaded config/config.js'']\<rparr>"
  using assms
  by (simp add: watchCallback_def reloadConfig_def tryCatch_def setGlobalRequire_def jsBind_def
      emit_def deleteCache_def setGlobal_def ifGlobal_def)

lemma watchCallback_notified:
  assumes "prevMtime < currMtime"
    and "require w cfgName (snd (deleteCache p s)) = (Inr v, s1)"
    and "globals s1 ''Users'' = Some u"
    and "fault w (trace s1) (Call ''Users.cacheGroupData'') = None"
  shows "watchCallback w p currMtime prevMtime s =
           s1\<lparr>globals := (globals s1)(''Config'' \<mapsto> v),
              trace := trace s1 @ [Did (Call ''Users.cacheGroupData''), Log ''Reloaded config/config.js'']\<rparr>"
  using assms
  by (simp add: watchCallback_def reloadConfig_def tryCatch_def setGlobalRequire_def jsBind_def
      emit_def deleteCache_def setGlobal_def ifGlobal_def callGlobal_def getGlobal_def perform_def)

lemma watchCallback_notify_throws:
  assumes "prevMtime < currMtime"
    and "require w cfgName (snd (deleteCache p s)) = (Inr v, s1)"
    and "globals s1 ''Users'' = Some u"
    and "fault w (trace s1) (Call ''Users.cacheGroupData'') = Some e"
  shows "watchCallback w p currMtime prevMtime s =
           s1\<lparr>globals := (globals s1)(''Config'' \<mapsto> v),
              trace := trace s1 @ [Failed (Call ''Users.cacheGroupData'') e,
                Log (''Error reloading config/config.js: '' @ stack e)]\<rparr>"
  using assms
  by (simp add: watchCallback_def reloadConfig_def tryCatch_def setGlobalRequire_def jsBind_def
      emit_def deleteCache_def setGlobal_def ifGlobal_def callGlobal_def getGlobal_def perform_def
      failOp_def)

lemma fileChanged_single:
  "watchers s = [p] \<Longrightarrow> fileChanged w p currMtime prevMtime s = watchCallback w p currMtime prevMtime s"
  by (simp add: fileChanged_def)

text \<open>
  Claim C1. A reload is attempted (the new modification time is later) and requiring the
  configuration module again throws \<open>e\<close>, for instance because the file no longer parses
  (lemma \<open>require_parse_error\<close>). Then no global binding changes, so \<^verbatim>\<open>Config\<close> is still
  the snapshot from before the reload; the process keeps running; and the last thing
  printed is the error message with the stack of \<open>e\<close>.
\<close>

theorem reload_failure_keeps_config:
  assumes "prevMtime < currMtime"
    and "fst (require w cfgName (snd (deleteCache p s))) = Inl e"
  shows "globals (watchCallback w p currMtime prevMtime s) = globals s
    \<and> exited (watchCallback w p currMtime prevMtime s) = exited s
    \<and> (\<exists>evs. trace (watchCallback w p currMtime prevMtime s)
          = trace s @ evs @ [Log (''Error reloading config/config.js: '' @ stack e)])"
proof -
  obtain s1 where r: "require w cfgName (snd (deleteCache p s)) = (Inl e, s1)"
    using assms(2) by (cases "require w cfgName (snd (deleteCache p s))") auto
  have s1: "s1 = snd (require w cfgName (snd (deleteCache p s)))"
    using r by simp
  have g: "globals s1 = globals s" and x: "exited s1 = exited s"
    unfolding s1 using require_frame [of w cfgName "snd (deleteCache p s)"]
    by (simp_all add: deleteCache_def)
  obtain evs where t: "trace s1 = trace s @ evs"
    unfolding s1 using require_trace [of w cfgName "snd (deleteCache p s)"]
    by (auto simp: deleteCache_def)
  show ?thesis
    using watchCallback_failure [OF assms(1) r] g x t by simp
qed

theorem reload_failure_keeps_config_witness:
  "globals (watchCallback exampleWorld cfgPath 2 1 brokenEdit) ''Config''
     = Some (GConfig [(''crashguard'', JBool True), (''watchconfig'', JBool True)])
   \<and> exited (watchCallback exampleWorld cfgPath 2 1 brokenEdit) = None
   \<and> last (trace (watchCallback exampleWorld cfgPath 2 1 brokenEdit))
     = Log ''Error reloading config/config.js: SyntaxError: Unexpected token''"
proof -
  let ?e = "JSError [] ''Unexpected token'' ''SyntaxError: Unexpected token''"
  let ?s0 = "snd (deleteCache cfgPath brokenEdit)"
  have h1: "(1::int) < 2" by simp
  have "require exampleWorld cfgName ?s0 = (Inl ?e, ?s0\<lparr>trace := trace ?s0 @ [Failed (Load cfgPath) ?e]\<rparr>)"
    by (rule require_parse_error [where src = "''exports.crashguard = ;''"])
      (simp_all add: deleteCache_def brokenEdit_def exampleWorld_def exampleEval_def)
  then have h2: "fst (require exampleWorld cfgName ?s0) = Inl ?e" by simp
  from reload_failure_keeps_config [OF h1 h2] show ?thesis
    by (auto simp: brokenEdit_def guardedProc_facts)
qed

text \<open>
  Claim C4. Hot reload is on (the watcher is registered for the configuration file), the
  file parses to \<open>c\<close>, and \<^verbatim>\<open>Users\<close> is defined, as it is once startup is over. When the
  new modification time is not later than the previous one the callback does nothing at
  all. When it is strictly later, the module is evaluated again, \<^verbatim>\<open>Config\<close> becomes the
  fresh object \<open>c\<close>, and \<^verbatim>\<open>Users.cacheGroupData()\<close> is called next (it returns, or it
  throws and the error is printed). So the configuration module is re-evaluated if and
  only if the modification time strictly increased.
\<close>

theorem reload_on_newer_mtime:
  assumes "watchers s = [cfgPath]"
    and "files s cfgPath = Some src" and "evalConfig w src = Inr c"
    and "fault w (trace s) (Resolve cfgName) = None"
    and "globals s ''Users'' = Some u"
    and "s' = fileChanged w cfgPath currMtime prevMtime s"
  shows "(currMtime \<le> prevMtime \<longrightarrow> s' = s)
     \<and> (prevMtime < currMtime \<longrightarrow>
          globals s' ''Config'' = Some (GConfig c)
        \<and> modcache s' cfgPath = Some (GConfig c)
        \<and> trace s' = trace s @ [Did (Load cfgPath)] @
             (case fault w (trace s @ [Did (Load cfgPath)]) (Call ''Users.cacheGroupData'') of
                None \<Rightarrow> [Did (Call ''Users.cacheGroupData''), Log ''Reloaded config/config.js'']
              | Some e \<Rightarrow> [Failed (Call ''Users.cacheGroupData'') e,
                           Log (''Error reloading config/config.js: '' @ stack e)]))
     \<and> (Did (Load cfgPath) \<in> set (drop (length (trace s)) (trace s'))
          \<longleftrightarrow> prevMtime < currMtime)"
proof -
  have s': "s' = watchCallback w cfgPath currMtime prevMtime s"
    using assms(1,6) by (simp add: fileChanged_single)
  let ?s0 = "snd (deleteCache cfgPath s)"
  let ?s1 = "?s0\<lparr>modcache := (modcache ?s0)(cfgPath \<mapsto> GConfig c), trace := trace ?s0 @ [Did (Load cfgPath)]\<rparr>"
  have rq: "require w cfgName ?s0 = (Inr (GConfig c), ?s1)"
    using assms(2-4) by (intro require_parse_ok) (simp_all add: deleteCache_def)
  have u: "globals ?s1 ''Users'' = Some u"
    using assms(5) by (simp add: deleteCache_def)
  have t1: "trace ?s1 = trace s @ [Did (Load cfgPath)]"
    by (simp add: deleteCache_def)
  have old: "currMtime \<le> prevMtime \<longrightarrow> s' = s"
    unfolding s' by (simp add: watchCallback_old)
  have new: "prevMtime < currMtime \<longrightarrow>
          globals s' ''Config'' = Some (GConfig c)
        \<and> modcache s' cfgPath = Some (GConfig c)
        \<and> trace s' = trace s @ [Did (Load cfgPath)] @
             (case fault w (trace s @ [Did (Load cfgPath)]) (Call ''Users.cacheGroupData'') of
                None \<Rightarrow> [Did (Call ''Users.cacheGroupData''), Log ''Reloaded config/config.js'']
              | Some e \<Rightarrow> [Failed (Call ''Users.cacheGroupData'') e,
                           Log (''Error reloading config/config.js: '' @ stack e)])"
  proof
    assume lt: "prevMtime < currMtime"
    show "globals s' ''Config'' = Some (GConfig c)
        \<and> modcache s' cfgPath = Some (GConfig c)
        \<and> trace s' = trace s @ [Did (Load cfgPath)] @
             (case fault w (trace s @ [Did (Load cfgPath)]) (Call ''Users.cacheGroupData'') of
                None \<Rightarrow> [Did (Call ''Users.cacheGroupData''), Log ''Reloaded config/config.js'']
              | Some e \<Rightarrow> [Failed (Call ''Users.cacheGroupData'') e,
                           Log (''Error reloading config/config.js: '' @ stack e)])"
    proof (cases "fault w (trace ?s1) (Call ''Users.cacheGroupData'')")
      case None
      from watchCallback_notified [OF lt rq u None] None t1 show ?thesis
        unfolding s' by (simp add: deleteCache_def)
    next
      case (Some e)
      from watchCallback_notify_throws [OF lt rq u Some] Some t1 show ?thesis
        unfolding s' by (simp add: deleteCache_def)
    qed
  qed
  have iff: "Did (Load cfgPath) \<in> set (drop (length (trace s)) (trace s')) \<longleftrightarrow> prevMtime < currMtime"
  proof (cases "prevMtime < currMtime")
    case True
    with new show ?thesis by simp
  next
    case False
    with old show ?thesis by simp
  qed
  show ?thesis using old new iff by blast
qed

theorem reload_on_newer_mtime_witness:
  "globals (fileChanged exampleWorld cfgPath 2 1 remoteEdit) ''Config''
     = Some (GConfig [(''crashguard'', JBool True), (''watchconfig'', JBool True), (''remoteladder'', JBool True)])
   \<and> drop (length (trace remoteEdit)) (trace (fileChanged exampleWorld cfgPath 2 1 remoteEdit))
     = [Did (Load cfgPath), Did (Call ''Users.cacheGroupData''), Log ''Reloaded config/config.js'']
   \<and> fileChanged exampleWorld cfgPath 1 2 remoteEdit = remoteEdit
   \<and> fileChanged exampleWorld cfgPath 2 2 remoteEdit = remoteEdit"
proof -
  have h1: "watchers remoteEdit = [cfgPath]"
    by (simp add: remoteEdit_def guardedProc_facts)
  have h2: "files remoteEdit cfgPath = Some remoteText"
    by (simp add: remoteEdit_def)
  have h3: "evalConfig exampleWorld remoteText
      = Inr [(''crashguard'', JBool True), (''watchconfig'', JBool True), (''remoteladder'', JBool True)]"
    by (simp add: exampleWorld_def exampleEval_def)
  have h4: "fault exampleWorld (trace remoteEdit) (Resolve cfgName) = None"
    by (rule exampleWorld_fault)
  have h5: "globals remoteEdit ''Users'' = Some (GExports ''./users'')"
    by (simp add: remoteEdit_def guardedProc_facts)
  from reload_on_newer_mtime [OF h1 h2 h3 h4 h5 refl, of 2 1]
    reload_on_newer_mtime [OF h1 h2 h3 h4 h5 refl, of 1 2]
    reload_on_newer_mtime [OF h1 h2 h3 h4 h5 refl, of 2 2]
  show ?thesis
    by (simp add: exampleWorld_fault)
qed

text \<open>
  Claim C10. Whatever a run of the watcher does, it leaves every global binding other
  than \<^verbatim>\<open>Config\<close> as it was, and with them the files, the installed packages, the
  watchers, the process listeners, the exports and the exit status; in the module cache
  only the entry of the configuration module can change; and the only call it makes into
  another module is \<^verbatim>\<open>Users.cacheGroupData\<close>. In particular \<^verbatim>\<open>Ladders\<close> keeps the
  module chosen at startup.
\<close>

theorem reload_frame:
  assumes "s' = watchCallback w p currMtime prevMtime s"
  shows "(\<forall>g. g \<noteq> ''Config'' \<longrightarrow> globals s' g = globals s g)
    \<and> files s' = files s \<and> packages s' = packages s \<and> watchers s' = watchers s
    \<and> listeners s' = listeners s \<and> hasSend s' = hasSend s \<and> exported s' = exported s
    \<and> exited s' = exited s
    \<and> (\<forall>q. q \<noteq> p \<and> q \<noteq> cfgPath \<longrightarrow> modcache s' q = modcache s q)
    \<and> (\<forall>x. Did (Call x) \<in> set (trace s') \<longrightarrow>
           Did (Call x) \<in> set (trace s) \<or> x = ''Users.cacheGroupData'')"
proof -
  let ?s0 = "snd (deleteCache p s)"
  obtain r s1 where rq: "require w cfgName ?s0 = (r, s1)"
    by (cases "require w cfgName ?s0") auto
  have s1: "s1 = snd (require w cfgName ?s0)"
    using rq by simp
  have f: "globals s1 = globals s" "files s1 = files s" "packages s1 = packages s"
    "watchers s1 = watchers s" "listeners s1 = listeners s" "hasSend s1 = hasSend s"
    "exported s1 = exported s" "exited s1 = exited s"
    unfolding s1 using require_frame [of w cfgName ?s0] by (simp_all add: deleteCache_def)
  have m: "\<forall>q. q \<noteq> p \<and> q \<noteq> cfgPath \<longrightarrow> modcache s1 q = modcache s q"
    unfolding s1 using require_modcache [of _ w ?s0] by (simp add: deleteCache_def)
  have c: "\<forall>x. Did (Call x) \<in> set (trace s1) \<longrightarrow> Did (Call x) \<in> set (trace s)"
    unfolding s1 using require_calls [of _ w cfgName ?s0] by (simp add: deleteCache_def)
  show ?thesis
  proof (cases "currMtime \<le> prevMtime")
    case True
    then show ?thesis unfolding assms by (simp add: watchCallback_old)
  next
    case False
    then have lt: "prevMtime < currMtime" by simp
    show ?thesis
    proof (cases r)
      case (Inl e)
      with rq have "require w cfgName ?s0 = (Inl e, s1)" by simp
      from watchCallback_failure [OF lt this] show ?thesis
        unfolding assms using f m c by auto
    next
      case (Inr v)
      with rq have rv: "require w cfgName ?s0 = (Inr v, s1)" by simp
      show ?thesis
      proof (cases "globals s1 ''Users''")
        case None
        from watchCallback_no_users [OF lt rv None] show ?thesis
          unfolding assms using f m c by auto
      next
        case (Some u)
        show ?thesis
        proof (cases "fault w (trace s1) (Call ''Users.cacheGroupData'')")
          case None
          from watchCallback_notified [OF lt rv Some None] show ?thesis
            unfolding assms using f m c by auto
        next
          case (Some e)
          from watchCallback_notify_throws [OF lt rv \<open>globals s1 ''Users'' = Some u\<close> Some]
          show ?thesis
            unfolding assms using f m c by auto
        qed
      qed
    qed
  qed
qed

text \<open>
  The server was started without the remote ladder; the reload turns the option on, and
  \<^verbatim>\<open>Ladders\<close> is still the local implementation.
\<close>

theorem reload_frame_witness:
  "globals (watchCallback exampleWorld cfgPath 2 1 remoteEdit) ''Ladders'' = Some (GExports ''./ladders'')
   \<and> fst (configOption ''remoteladder'' (watchCallback exampleWorld cfgPath 2 1 remoteEdit)) = Inr (JBool True)
   \<and> modcache (watchCallback exampleWorld cfgPath 2 1 remoteEdit) ''./users'' = Some (GExports ''./users'')
   \<and> Did (Call ''Users.cacheGroupData'') \<in> set (trace (watchCallback exampleWorld cfgPath 2 1 remoteEdit))
   \<and> Did (Call ''Users.cacheGroupData'') \<notin> set (trace remoteEdit)"
proof -
  let ?c = "[(''crashguard'', JBool True), (''watchconfig'', JBool True), (''remoteladder'', JBool True)]"
  let ?s0 = "snd (deleteCache cfgPath remoteEdit)"
  let ?s1 = "?s0\<lparr>modcache := (modcache ?s0)(cfgPath \<mapsto> GConfig ?c), trace := trace ?s0 @ [Did (Load cfgPath)]\<rparr>"
  have rq: "require exampleWorld cfgName ?s0 = (Inr (GConfig ?c), ?s1)"
    by (rule require_parse_ok [where src = remoteText])
      (simp_all add: deleteCache_def remoteEdit_def exampleWorld_def exampleEval_def)
  have u: "globals ?s1 ''Users'' = Some (GExports ''./users'')"
    by (simp add: deleteCache_def remoteEdit_def guardedProc_facts)
  have lt: "(1::int) < 2" by simp
  note run = watchCallback_notified [OF lt rq u exampleWorld_fault]
  have cfg: "globals (watchCallback exampleWorld cfgPath 2 1 remoteEdit) ''Config'' = Some (GConfig ?c)"
    using run by simp
  have called: "Did (Call ''Users.cacheGroupData'') \<in> set (trace (watchCallback exampleWorld cfgPath 2 1 remoteEdit))"
    using run by simp
  have before: "Did (Call ''Users.cacheGroupData'') \<notin> set (trace remoteEdit)"
    by (simp add: remoteEdit_def guardedProc_trace)
  note frame = reload_frame [OF refl, of exampleWorld cfgPath 2 1 remoteEdit]
  have g: "globals (watchCallback exampleWorld cfgPath 2 1 remoteEdit) ''Ladders'' = globals remoteEdit ''Ladders''"
    using frame by simp
  have m: "modcache (watchCallback exampleWorld cfgPath 2 1 remoteEdit) ''./users'' = modcache remoteEdit ''./users''"
    using frame by simp
  show ?thesis
    using g m cfg called before
    by (simp add: remoteEdit_def guardedProc_facts configOption_def getGlobal_def
        jsBind_def jsReturn_def optionValue_def)
qed

section \<open>Uncaught exceptions and unhandled rejections\<close>

text \<open>What asking the crash logger changes, and the listener along its two paths.\<close>

lemma crashType_frame:
  "globals (snd (crashType w err s)) = globals s
   \<and> listeners (snd (crashType w err s)) = listeners s
   \<and> exited (snd (crashType w err s)) = exited s"
  by (simp add: crashType_def require_def resolve_def evaluate_def jsBind_def failOp_def
      split: option.splits sum.splits prod.splits)

lemma crashType_grows:
  "\<exists>ev evs. trace (snd (crashType w err s)) = trace s @ ev # evs"
  by (simp add: crashType_def require_def resolve_def evaluate_def jsBind_def failOp_def lookup_def
      split: option.splits sum.splits prod.splits)

lemma crashType_calls:
  "Did (Call y) \<in> set (trace (snd (crashType w err s))) \<Longrightarrow>
   Did (Call y) \<in> set (trace s) \<or> y = ''crashlogger''"
  by (auto simp: crashType_def require_def resolve_def evaluate_def jsBind_def failOp_def lookup_def
      split: option.splits sum.splits prod.splits if_splits)

lemma crashType_lockdown: "lockdownStarted (snd (crashType w err s)) = lockdownStarted s"
proof -
  obtain ev evs where t: "trace (snd (crashType w err s)) = trace s @ ev # evs"
    using crashType_grows [of w err s] by blast
  have "lockdownStarted (snd (crashType w err s)) \<Longrightarrow> lockdownStarted s"
    unfolding lockdownStarted_def using crashType_calls [of "''Rooms.global.startLockdown''" w err s]
    by simp
  moreover have "lockdownStarted s \<Longrightarrow> lockdownStarted (snd (crashType w err s))"
    unfolding lockdownStarted_def t by simp
  ultimately show ?thesis by blast
qed

lemma handler_lockdown:
  assumes "crashType w err s = (Inr t, s1)" and "t = ''lockdown''"
    and "globals s1 ''Rooms'' = Some r"
    and "fault w (trace s1) (Call ''Rooms.global.startLockdown'') = None"
  shows "onUncaughtException w err s =
           (Inr (), s1\<lparr>trace := trace s1 @ [Did (Call ''Rooms.global.startLockdown'')]\<rparr>)"
  using assms
  by (simp add: onUncaughtException_def jsBind_def callGlobal_def getGlobal_def perform_def)

lemma handler_report:
  assumes "crashType w err s = (Inr t, s1)" and "t \<noteq> ''lockdown''"
    and "globals s1 ''Rooms'' = Some r"
    and "fault w (trace s1) (Call ''Rooms.global.reportCrash'') = None"
  shows "onUncaughtException w err s =
           (Inr (), s1\<lparr>trace := trace s1 @ [Did (Call ''Rooms.global.reportCrash'')]\<rparr>)"
  using assms
  by (simp add: onUncaughtException_def jsBind_def callGlobal_def getGlobal_def perform_def)

lemma uncaught_once:
  "registered ''uncaughtException'' s = 1 \<Longrightarrow> onUncaughtException w err s = (Inr (), s2) \<Longrightarrow>
   uncaughtException w err s = s2"
  by (simp add: uncaughtException_def)

lemma handler_outcome:
  assumes "registered ''uncaughtException'' s = 1"
    and "crashType w err s = (Inr t, s1)"
    and "globals s ''Rooms'' = Some r"
    and "fault w (trace s1) (Call ''Rooms.global.startLockdown'') = None"
    and "fault w (trace s1) (Call ''Rooms.global.reportCrash'') = None"
  shows "uncaughtException w err s =
      s1\<lparr>trace := trace s1 @
        [Did (Call (if t = ''lockdown'' then ''Rooms.global.startLockdown''
                    else ''Rooms.global.reportCrash''))]\<rparr>"
proof -
  have s1: "s1 = snd (crashType w err s)" using assms(2) by simp
  have g: "globals s1 ''Rooms'' = Some r"
    unfolding s1 using crashType_frame [of w err s] assms(3) by simp
  show ?thesis
  proof (cases "t = ''lockdown''")
    case True
    from uncaught_once [OF assms(1) handler_lockdown [OF assms(2) True g assms(4)]] True
    show ?thesis by simp
  next
    case False
    from uncaught_once [OF assms(1) handler_report [OF assms(2) False g assms(5)]] False
    show ?thesis by simp
  qed
qed

lemma rejection_rethrown:
  "0 < registered ''unhandledRejection'' s \<Longrightarrow> unhandledRejection w err s = uncaughtException w err s"
  by (simp add: unhandledRejection_def onUnhandledRejection_def jsThrow_def)

lemma onUncaught_grows:
  "length (trace s) < length (trace (snd (onUncaughtException w err s)))"
proof -
  obtain ev evs where t: "trace (snd (crashType w err s)) = trace s @ ev # evs"
    using crashType_grows [of w err s] by blast
  obtain r s1 where c: "crashType w err s = (r, s1)" by (cases "crashType w err s") auto
  have "length (trace s1) \<le> length (trace (snd (onUncaughtException w err s)))"
    using c by (simp add: onUncaughtException_def jsBind_def callGlobal_def getGlobal_def
        perform_def failOp_def split: sum.splits option.splits)
  then show ?thesis using t c by simp
qed

lemma runListeners_grows:
  "length (trace s) \<le> length (trace (snd (runListeners n (onUncaughtException w err) s)))"
proof (induction n arbitrary: s)
  case 0
  then show ?case by simp
next
  case (Suc n)
  obtain r s1 where h: "onUncaughtException w err s = (r, s1)"
    by (cases "onUncaughtException w err s") auto
  have a: "length (trace s) < length (trace s1)"
    using onUncaught_grows [of s w err] h by simp
  show ?case
  proof (cases r)
    case (Inl e)
    then show ?thesis using h a by simp
  next
    case (Inr u)
    then show ?thesis using h a Suc.IH [of s1] by simp
  qed
qed

lemma runListeners_Suc_grows:
  "length (trace s) < length (trace (snd (runListeners (Suc n) (onUncaughtException w err) s)))"
proof -
  obtain r s1 where h: "onUncaughtException w err s = (r, s1)"
    by (cases "onUncaughtException w err s") auto
  have a: "length (trace s) < length (trace s1)"
    using onUncaught_grows [of s w err] h by simp
  show ?thesis
  proof (cases r)
    case (Inl e)
    then show ?thesis using h a by simp
  next
    case (Inr u)
    then show ?thesis using h a runListeners_grows [of s1 n w err] by simp
  qed
qed

lemma uncaught_grows:
  "length (trace s) < length (trace (uncaughtException w err s))"
proof (cases "registered ''uncaughtException'' s")
  case 0
  then show ?thesis by (simp add: uncaughtException_def processExit_def)
next
  case (Suc n)
  obtain r s1 where h: "runListeners (Suc n) (onUncaughtException w err) s = (r, s1)"
    by (cases "runListeners (Suc n) (onUncaughtException w err) s") auto
  have a: "length (trace s) < length (trace s1)"
    using runListeners_Suc_grows [of s n w err] h by simp
  show ?thesis
    using Suc h a by (cases r) (simp_all add: uncaughtException_def processExit_def del: runListeners.simps)
qed

lemma crashType_guarded:
  "crashType exampleWorld e guardedProc =
     (Inr (if message e = ''out of memory'' then ''lockdown'' else ''crash''),
      guardedProc\<lparr>modcache := (modcache guardedProc)(''./crashlogger'' \<mapsto> GExports ''./crashlogger''),
        trace := trace guardedProc @ [Did (Load ''./crashlogger''), Did (Call ''crashlogger'')]\<rparr>)"
  by (simp add: crashType_def require_def resolve_def lookup_def evaluate_def jsBind_def
      exampleWorld_def guardedProc_facts)

lemma guardedProc_registered:
  "registered ''uncaughtException'' guardedProc = 1"
  "registered ''unhandledRejection'' guardedProc = 1"
  "registered ''exit'' guardedProc = 1"
  by (simp_all add: registered_def guardedProc_facts)

lemma guardedProc_not_locked: "\<not> lockdownStarted guardedProc"
  by (simp add: lockdownStarted_def guardedProc_trace)

text \<open>
  Claim C2. The crash guard is enabled: the listener for uncaught exceptions is
  registered (once, by \<open>crashGuard\<close>). An exception reaches it, the crash logger returns the
  classification \<open>t\<close>, and the rooms module returns from whichever call it gets. Then
  exactly one call follows the classification: \<^verbatim>\<open>Rooms.global.startLockdown\<close> when \<open>t\<close> is
  \<^verbatim>\<open>'lockdown'\<close>, \<^verbatim>\<open>Rooms.global.reportCrash\<close> otherwise. The lockdown is entered by this
  fault if and only if the classification is \<^verbatim>\<open>'lockdown'\<close>, and the process keeps running.
\<close>

theorem crash_handler_dispatch:
  assumes "registered ''uncaughtException'' s = 1"
    and "crashType w err s = (Inr t, s1)"
    and "globals s ''Rooms'' = Some r"
    and "fault w (trace s1) (Call ''Rooms.global.startLockdown'') = None"
    and "fault w (trace s1) (Call ''Rooms.global.reportCrash'') = None"
  shows "uncaughtException w err s =
      s1\<lparr>trace := trace s1 @
        [Did (Call (if t = ''lockdown'' then ''Rooms.global.startLockdown''
                    else ''Rooms.global.reportCrash''))]\<rparr>
    \<and> (lockdownStarted (uncaughtException w err s) \<longleftrightarrow> lockdownStarted s \<or> t = ''lockdown'')
    \<and> exited (uncaughtException w err s) = exited s"
proof -
  have s1: "s1 = snd (crashType w err s)" using assms(2) by simp
  have l: "lockdownStarted s1 = lockdownStarted s"
    unfolding s1 by (rule crashType_lockdown)
  have x: "exited s1 = exited s"
    unfolding s1 using crashType_frame [of w err s] by simp
  note h = handler_outcome [OF assms]
  have "lockdownStarted (uncaughtException w err s) \<longleftrightarrow> lockdownStarted s1 \<or> t = ''lockdown''"
    unfolding h by (simp add: lockdownStarted_def)
  then show ?thesis using h l x by simp
qed

theorem crash_handler_dispatch_witness:
  "lockdownStarted (uncaughtException exampleWorld (JSError [] ''out of memory'' ''Error: out of memory'') guardedProc)
   \<and> \<not> lockdownStarted (uncaughtException exampleWorld (JSError [] ''bad move'' ''Error: bad move'') guardedProc)
   \<and> drop (length (trace guardedProc))
        (trace (uncaughtException exampleWorld (JSError [] ''bad move'' ''Error: bad move'') guardedProc))
      = [Did (Load ''./crashlogger''), Did (Call ''crashlogger''), Did (Call ''Rooms.global.reportCrash'')]"
proof -
  note a = crash_handler_dispatch [OF guardedProc_registered(1) crashType_guarded
      guardedProc_facts(7) exampleWorld_fault exampleWorld_fault,
      of "JSError [] ''out of memory'' ''Error: out of memory''"]
  note b = crash_handler_dispatch [OF guardedProc_registered(1) crashType_guarded
      guardedProc_facts(7) exampleWorld_fault exampleWorld_fault,
      of "JSError [] ''bad move'' ''Error: bad move''"]
  show ?thesis
    using a b guardedProc_not_locked by (auto simp: lockdownStarted_def)
qed

text \<open>
  Claim C6, as amended. With the crash guard enabled, the listener for unhandled
  rejections throws the rejection, so the rejection is handled exactly as an uncaught
  exception with the same value. It is never swallowed: the history always grows (at
  least the crash logger is asked). It is not fatal either: when the crash logger and
  the rooms module return, the rejection starts the lockdown or is reported as a crash,
  and the process keeps running.
\<close>

theorem rejection_becomes_uncaught:
  assumes "0 < registered ''unhandledRejection'' s"
  shows "unhandledRejection w err s = uncaughtException w err s
    \<and> length (trace s) < length (trace (unhandledRejection w err s))
    \<and> (registered ''uncaughtException'' s = 1 \<and> crashType w err s = (Inr t, s1)
         \<and> globals s ''Rooms'' = Some r
         \<and> fault w (trace s1) (Call ''Rooms.global.startLockdown'') = None
         \<and> fault w (trace s1) (Call ''Rooms.global.reportCrash'') = None
       \<longrightarrow> unhandledRejection w err s =
             s1\<lparr>trace := trace s1 @
               [Did (Call (if t = ''lockdown'' then ''Rooms.global.startLockdown''
                           else ''Rooms.global.reportCrash''))]\<rparr>
           \<and> exited (unhandledRejection w err s) = exited s)"
proof -
  have a: "unhandledRejection w err s = uncaughtException w err s"
    using assms by (rule rejection_rethrown)
  have b: "length (trace s) < length (trace (unhandledRejection w err s))"
    unfolding a by (rule uncaught_grows)
  have c: "registered ''uncaughtException'' s = 1 \<and> crashType w err s = (Inr t, s1)
         \<and> globals s ''Rooms'' = Some r
         \<and> fault w (trace s1) (Call ''Rooms.global.startLockdown'') = None
         \<and> fault w (trace s1) (Call ''Rooms.global.reportCrash'') = None
       \<longrightarrow> unhandledRejection w err s =
             s1\<lparr>trace := trace s1 @
               [Did (Call (if t = ''lockdown'' then ''Rooms.global.startLockdown''
                           else ''Rooms.global.reportCrash''))]\<rparr>
           \<and> exited (unhandledRejection w err s) = exited s"
  proof
    assume h: "registered ''uncaughtException'' s = 1 \<and> crashType w err s = (Inr t, s1)
         \<and> globals s ''Rooms'' = Some r
         \<and> fault w (trace s1) (Call ''Rooms.global.startLockdown'') = None
         \<and> fault w (trace s1) (Call ''Rooms.global.reportCrash'') = None"
    then have o: "uncaughtException w err s =
             s1\<lparr>trace := trace s1 @
               [Did (Call (if t = ''lockdown'' then ''Rooms.global.startLockdown''
                           else ''Rooms.global.reportCrash''))]\<rparr>"
      by (intro handler_outcome) simp_all
    have "s1 = snd (crashType w err s)" using h by simp
    then have "exited s1 = exited s"
      using crashType_frame [of w err s] by simp
    then show "unhandledRejection w err s =
             s1\<lparr>trace := trace s1 @
               [Did (Call (if t = ''lockdown'' then ''Rooms.global.startLockdown''
                           else ''Rooms.global.reportCrash''))]\<rparr>
           \<and> exited (unhandledRejection w err s) = exited s"
      unfolding a o by simp
  qed
  show ?thesis using a b c by blast
qed

theorem rejection_becomes_uncaught_witness:
  "unhandledRejection exampleWorld (JSError [] ''out of memory'' ''Error: out of memory'') guardedProc
     = guardedProc\<lparr>modcache := (modcache guardedProc)(''./crashlogger'' \<mapsto> GExports ''./crashlogger''),
         trace := trace guardedProc @ [Did (Load ''./crashlogger''), Did (Call ''crashlogger''),
           Did (Call ''Rooms.global.startLockdown'')]\<rparr>
   \<and> exited (unhandledRejection exampleWorld (JSError [] ''out of memory'' ''Error: out of memory'') guardedProc) = None"
proof -
  have h: "0 < registered ''unhandledRejection'' guardedProc"
    by (simp add: guardedProc_registered)
  from rejection_becomes_uncaught [OF h, of exampleWorld
      "JSError [] ''out of memory'' ''Error: out of memory''" "''lockdown''"
      "guardedProc\<lparr>modcache := (modcache guardedProc)(''./crashlogger'' \<mapsto> GExports ''./crashlogger''),
         trace := trace guardedProc @ [Did (Load ''./crashlogger''), Did (Call ''crashlogger'')]\<rparr>"
      "GExports ''./rooms''"]
  show ?thesis
    by (auto simp: guardedProc_registered crashType_guarded guardedProc_facts exampleWorld_fault)
qed

text \<open>
  Claim C6 as stated fails on the running server: a rejection that the crash logger does
  not classify as a lockdown is reported, the process has not ended, and it is not in
  lockdown: it goes on serving.
\<close>

theorem rejection_becomes_uncaught_counterexample:
  "exited (unhandledRejection exampleWorld (JSError [] ''bad move'' ''Error: bad move'') guardedProc) = None
   \<and> \<not> lockdownStarted (unhandledRejection exampleWorld (JSError [] ''bad move'' ''Error: bad move'') guardedProc)
   \<and> drop (length (trace guardedProc))
        (trace (unhandledRejection exampleWorld (JSError [] ''bad move'' ''Error: bad move'') guardedProc))
      = [Did (Load ''./crashlogger''), Did (Call ''crashlogger''), Did (Call ''Rooms.global.reportCrash'')]"
proof -
  have a: "unhandledRejection exampleWorld (JSError [] ''bad move'' ''Error: bad move'') guardedProc
      = uncaughtException exampleWorld (JSError [] ''bad move'' ''Error: bad move'') guardedProc"
    by (rule rejection_rethrown) (simp add: guardedProc_registered)
  note o = handler_outcome [OF guardedProc_registered(1) crashType_guarded
      guardedProc_facts(7) exampleWorld_fault exampleWorld_fault,
      of "JSError [] ''bad move'' ''Error: bad move''"]
  show ?thesis
    unfolding a o using guardedProc_not_locked
    by (simp add: lockdownStarted_def guardedProc_facts)
qed


section \<open>Startup: dependencies and configuration\<close>

text \<open>A sequence of statements, one step at a time.\<close>

lemma block_Cons_fail: "fst (c s) = Inl e \<Longrightarrow> block (c # cs) s = (Inl e, snd (c s))"
  by (cases "c s") simp

lemma block_Cons_ok: "fst (c s) = Inr () \<Longrightarrow> block (c # cs) s = block cs (snd (c s))"
  by (cases "c s") simp

lemma startup_aborts_at_dependencies:
  "fst (dependencyCheck w s) = Inl e \<Longrightarrow> startup w s = (Inl e, snd (dependencyCheck w s))"
  unfolding startup_def by (rule block_Cons_fail)

lemma startup_after_dependencies:
  "fst (dependencyCheck w s) = Inr () \<Longrightarrow>
   startup w s = block [loadConfig w, watchConfig w, setupGlobals w, crashGuard, networking w,
     lastGlobal w, startRepl w] (snd (dependencyCheck w s))"
  unfolding startup_def by (rule block_Cons_ok)

lemma startup_aborts_at_config:
  assumes "fst (dependencyCheck w s) = Inr ()"
    and "fst (loadConfig w (snd (dependencyCheck w s))) = Inl e"
  shows "startup w s = (Inl e, snd (loadConfig w (snd (dependencyCheck w s))))"
  unfolding startup_after_dependencies [OF assms(1)] using assms(2) by (rule block_Cons_fail)

lemma dependencyCheck_present:
  "resolve w ''sockjs'' s = (Inr p, s1) \<Longrightarrow> dependencyCheck w s = (Inr (), s1)"
  by (simp add: dependencyCheck_def tryCatch_def jsBind_def jsReturn_def)

lemma dependencyCheck_module:
  "resolve w ''sockjs'' s = (Inl e, s1) \<Longrightarrow> \<not> isMain w \<Longrightarrow>
   dependencyCheck w s = (Inl (newError ''Dependencies unmet''), s1)"
  by (simp add: dependencyCheck_def tryCatch_def jsBind_def jsThrow_def)

lemma dependencyCheck_install:
  "resolve w ''sockjs'' s = (Inl e, s1) \<Longrightarrow> isMain w \<Longrightarrow>
   dependencyCheck w s =
     (Inr (), s1\<lparr>packages := packages s1 @
                   npmProvides w (trace s1 @ [Log ''Installing dependencies: `npm install --production`...'']),
                 trace := trace s1 @ [Log ''Installing dependencies: `npm install --production`...'',
                   SpawnSync ''sh -c npm install --production'']\<rparr>)"
  by (simp add: dependencyCheck_def tryCatch_def jsBind_def emit_def spawnSync_def)

text \<open>
  Claim C7, as amended. When \<^verbatim>\<open>sockjs\<close> does not resolve and app.js is not the main
  module, startup throws the error "Dependencies unmet" at once and nothing else runs.
  When app.js is the main module, the install command is run synchronously and startup
  goes on with the configuration: the dependency is not checked again, whatever the
  install command achieved.
\<close>

theorem dependency_check:
  "(resolve w ''sockjs'' s = (Inl e, s1) \<and> \<not> isMain w \<longrightarrow>
      startup w s = (Inl (newError ''Dependencies unmet''), s1)
      \<and> message (newError ''Dependencies unmet'') = ''Dependencies unmet'')
   \<and> (resolve w ''sockjs'' s = (Inl e, s1) \<and> isMain w \<longrightarrow>
      dependencyCheck w s =
        (Inr (), s1\<lparr>packages := packages s1 @
                   npmProvides w (trace s1 @ [Log ''Installing dependencies: `npm install --production`...'']),
                 trace := trace s1 @ [Log ''Installing dependencies: `npm install --production`...'',
                   SpawnSync ''sh -c npm install --production'']\<rparr>)
      \<and> startup w s = block [loadConfig w, watchConfig w, setupGlobals w, crashGuard, networking w,
            lastGlobal w, startRepl w] (snd (dependencyCheck w s)))"
proof -
  have a: "resolve w ''sockjs'' s = (Inl e, s1) \<and> \<not> isMain w \<longrightarrow>
      startup w s = (Inl (newError ''Dependencies unmet''), s1)
      \<and> message (newError ''Dependencies unmet'') = ''Dependencies unmet''"
  proof
    assume h: "resolve w ''sockjs'' s = (Inl e, s1) \<and> \<not> isMain w"
    then have d: "dependencyCheck w s = (Inl (newError ''Dependencies unmet''), s1)"
      by (intro dependencyCheck_module) simp_all
    then have "fst (dependencyCheck w s) = Inl (newError ''Dependencies unmet'')" by simp
    from startup_aborts_at_dependencies [OF this] d
    show "startup w s = (Inl (newError ''Dependencies unmet''), s1)
      \<and> message (newError ''Dependencies unmet'') = ''Dependencies unmet''"
      by (simp add: newError_def)
  qed
  have b: "resolve w ''sockjs'' s = (Inl e, s1) \<and> isMain w \<longrightarrow>
      dependencyCheck w s =
        (Inr (), s1\<lparr>packages := packages s1 @
                   npmProvides w (trace s1 @ [Log ''Installing dependencies: `npm install --production`...'']),
                 trace := trace s1 @ [Log ''Installing dependencies: `npm install --production`...'',
                   SpawnSync ''sh -c npm install --production'']\<rparr>)
      \<and> startup w s = block [loadConfig w, watchConfig w, setupGlobals w, crashGuard, networking w,
            lastGlobal w, startRepl w] (snd (dependencyCheck w s))"
  proof
    assume h: "resolve w ''sockjs'' s = (Inl e, s1) \<and> isMain w"
    then have d: "dependencyCheck w s =
        (Inr (), s1\<lparr>packages := packages s1 @
                   npmProvides w (trace s1 @ [Log ''Installing dependencies: `npm install --production`...'']),
                 trace := trace s1 @ [Log ''Installing dependencies: `npm install --production`...'',
                   SpawnSync ''sh -c npm install --production'']\<rparr>)"
      by (intro dependencyCheck_install) simp_all
    then have "fst (dependencyCheck w s) = Inr ()" by simp
    from startup_after_dependencies [OF this] d
    show "dependencyCheck w s =
        (Inr (), s1\<lparr>packages := packages s1 @
                   npmProvides w (trace s1 @ [Log ''Installing dependencies: `npm install --production`...'']),
                 trace := trace s1 @ [Log ''Installing dependencies: `npm install --production`...'',
                   SpawnSync ''sh -c npm install --production'']\<rparr>)
      \<and> startup w s = block [loadConfig w, watchConfig w, setupGlobals w, crashGuard, networking w,
            lastGlobal w, startRepl w] (snd (dependencyCheck w s))"
      by simp
  qed
  show ?thesis using a b by blast
qed

theorem dependency_check_witness:
  "startup (exampleWorld\<lparr>isMain := False\<rparr>) (freshProc Map.empty [])
     = (Inl (newError ''Dependencies unmet''),
        (freshProc Map.empty [])\<lparr>trace := [Failed (Resolve ''sockjs'')
           (JSError notFound ''Cannot find module sockjs'' ''Error: Cannot find module sockjs'')]\<rparr>)
   \<and> fst (dependencyCheck exampleWorld (freshProc Map.empty [])) = Inr ()"
proof -
  let ?e = "JSError notFound ''Cannot find module sockjs'' ''Error: Cannot find module sockjs''"
  let ?s1 = "(freshProc Map.empty [])\<lparr>trace := [Failed (Resolve ''sockjs'') ?e]\<rparr>"
  have r1: "resolve (exampleWorld\<lparr>isMain := False\<rparr>) ''sockjs'' (freshProc Map.empty []) = (Inl ?e, ?s1)"
    by (simp add: resolve_def lookup_def failOp_def example_defs)
  have r2: "resolve exampleWorld ''sockjs'' (freshProc Map.empty []) = (Inl ?e, ?s1)"
    by (simp add: resolve_def lookup_def failOp_def example_defs)
  have m1: "\<not> isMain (exampleWorld\<lparr>isMain := False\<rparr>)" by simp
  have m2: "isMain exampleWorld" by (simp add: exampleWorld_def)
  from dependency_check [of "exampleWorld\<lparr>isMain := False\<rparr>" "freshProc Map.empty []" ?e ?s1]
    dependency_check [of exampleWorld "freshProc Map.empty []" ?e ?s1] r1 r2 m1 m2
  show ?thesis by simp
qed

text \<open>
  Claim C7 as stated fails on a machine where the install achieves nothing: the
  dependency check returns normally although \<^verbatim>\<open>sockjs\<close> is still missing, the
  configuration and the subsystems are loaded and the verifier's worker is spawned, and
  startup fails only when ./sockets is loaded.
\<close>

lemma startup_offline:
  "(case startup offlineWorld (freshProc [cfgPath \<mapsto> guardedText] [''sqlite3'', ''origindb'']) of
      (r, s) \<Rightarrow>
        r = Inl (JSError notFound ''Cannot find module sockjs'' ''Error: Cannot find module sockjs'')
        \<and> lookup s ''sockjs'' = None
        \<and> Did (Call ''Verifier.PM.spawn'') \<in> set (trace s))"
  by (simp add: monad_defs node_defs app_defs example_defs offlineWorld_def)

theorem dependency_check_counterexample:
  "fst (dependencyCheck offlineWorld (freshProc [cfgPath \<mapsto> guardedText] [''sqlite3'', ''origindb''])) = Inr ()
   \<and> lookup (snd (dependencyCheck offlineWorld (freshProc [cfgPath \<mapsto> guardedText] [''sqlite3'', ''origindb'']))) ''sockjs'' = None
   \<and> Did (Call ''Verifier.PM.spawn'')
       \<in> set (trace (snd (startup offlineWorld (freshProc [cfgPath \<mapsto> guardedText] [''sqlite3'', ''origindb'']))))
   \<and> fst (startup offlineWorld (freshProc [cfgPath \<mapsto> guardedText] [''sqlite3'', ''origindb'']))
       = Inl (JSError notFound ''Cannot find module sockjs'' ''Error: Cannot find module sockjs'')"
proof -
  have a: "fst (dependencyCheck offlineWorld (freshProc [cfgPath \<mapsto> guardedText] [''sqlite3'', ''origindb''])) = Inr ()
   \<and> lookup (snd (dependencyCheck offlineWorld (freshProc [cfgPath \<mapsto> guardedText] [''sqlite3'', ''origindb'']))) ''sockjs'' = None"
    by (simp add: monad_defs node_defs dependencyCheck_def example_defs offlineWorld_def)
  show ?thesis
    using a startup_offline by (simp split: prod.splits)
qed

section \<open>The first load of the configuration\<close>

lemma setGlobalRequire_files:
  "files (snd (setGlobalRequire w g n s)) = files s"
proof -
  obtain r s1 where rq: "require w n s = (r, s1)" by (cases "require w n s") auto
  then have "files s1 = files s" using require_frame [of w n s] by simp
  then show ?thesis using rq
    by (cases r) (simp_all add: setGlobalRequire_def jsBind_def setGlobal_def)
qed

lemma tryFinally_files:
  "files (snd (tryFinally m (setGlobalRequire w g n) s)) = files (snd (m s))"
proof -
  obtain r s1 where m: "m s = (r, s1)" by (cases "m s") auto
  obtain r2 s2 where f: "setGlobalRequire w g n s1 = (r2, s2)"
    by (cases "setGlobalRequire w g n s1") auto
  have "files s2 = files s1" using setGlobalRequire_files [of w g n s1] f by simp
  then show ?thesis using m f by (cases r2) (simp_all add: tryFinally_def)
qed

lemma tryFinally_fails_left:
  "fst (m s) = Inl e \<Longrightarrow> \<exists>e'. fst (tryFinally m f s) = Inl e'"
  by (auto simp: tryFinally_def split: prod.splits sum.splits)

lemma tryFinally_rethrows:
  "fst (m s) = Inl e \<Longrightarrow> fst (f (snd (m s))) = Inr () \<Longrightarrow> fst (tryFinally m f s) = Inl e"
  by (auto simp: tryFinally_def split: prod.splits sum.splits)

lemma tryFinally_fails_right:
  "fst (f (snd (m s))) = Inl e \<Longrightarrow> fst (tryFinally m f s) = Inl e"
  by (auto simp: tryFinally_def split: prod.splits sum.splits)

lemma locateConfig_present:
  assumes "files s cfgPath = Some x"
    and "\<forall>h e. fault w h (Resolve cfgName) = Some e \<longrightarrow> code e \<noteq> notFound"
  shows "files (snd (locateConfig w s)) = files s"
proof (cases "fault w (trace s) (Resolve cfgName)")
  case None
  then show ?thesis using assms(1)
    by (simp add: locateConfig_def tryCatch_def jsBind_def jsReturn_def resolve_def lookup_def)
next
  case (Some e)
  then have "code e \<noteq> notFound" using assms(2) by blast
  then show ?thesis using Some
    by (simp add: locateConfig_def tryCatch_def jsBind_def resolve_def failOp_def jsThrow_def)
qed

lemma locateConfig_rethrows:
  "fst (resolve w cfgName s) = Inl e \<Longrightarrow> code e \<noteq> notFound \<Longrightarrow> fst (locateConfig w s) = Inl e"
  by (auto simp: locateConfig_def tryCatch_def jsBind_def jsThrow_def split: prod.splits sum.splits)

lemma copy_fails:
  "fst (resolve w cfgName s) = Inl e \<Longrightarrow> code e = notFound \<Longrightarrow>
   fst (copyExample w (snd (emit (Log ''config.js doesn't exist - creating one with default settings...'')
      (snd (resolve w cfgName s))))) = Inl e' \<Longrightarrow>
   fst (locateConfig w s) = Inl e'"
  by (auto simp: locateConfig_def tryCatch_def jsBind_def emit_def split: prod.splits sum.splits)

lemma first_run:
  assumes "files s cfgPath = None" and "files s examplePath = Some tpl"
    and "evalConfig w tpl = Inr c" and "modcache s cfgPath = None"
    and "\<forall>h. fault w h (Resolve cfgName) = None \<and> fault w h (ReadFile examplePath) = None
          \<and> fault w h (WriteFile cfgPath) = None"
  shows "loadConfig w s =
     (Inr (), s\<lparr>files := (files s)(cfgPath \<mapsto> tpl),
               modcache := (modcache s)(cfgPath \<mapsto> GConfig c),
               globals := (globals s)(''Config'' \<mapsto> GConfig c),
               trace := trace s @
                 [Failed (Resolve cfgName)
                    (JSError notFound ''Cannot find module ./config/config''
                       ''Error: Cannot find module ./config/config''),
                  Log ''config.js doesn't exist - creating one with default settings...'',
                  Did (WriteFile cfgPath), Did (Load cfgPath)]\<rparr>)"
proof -
  let ?s1 = "s\<lparr>files := (files s)(cfgPath \<mapsto> tpl),
               trace := trace s @
                 [Failed (Resolve cfgName)
                    (JSError notFound ''Cannot find module ./config/config''
                       ''Error: Cannot find module ./config/config''),
                  Log ''config.js doesn't exist - creating one with default settings...'',
                  Did (WriteFile cfgPath)]\<rparr>"
  have l: "locateConfig w s = (Inr (), ?s1)"
    using assms(1,2,5)
    by (simp add: locateConfig_def tryCatch_def jsBind_def jsReturn_def resolve_def lookup_def
        failOp_def emit_def copyExample_def readFileSync_def writeFileSync_def)
  have r: "require w cfgName ?s1 = (Inr (GConfig c),
     ?s1\<lparr>modcache := (modcache ?s1)(cfgPath \<mapsto> GConfig c), trace := trace ?s1 @ [Did (Load cfgPath)]\<rparr>)"
    using assms(3,4,5) by (intro require_parse_ok) simp_all
  show ?thesis
    by (simp add: loadConfig_def tryFinally_def l setGlobalRequire_def jsBind_def r setGlobal_def)
qed

text \<open>
  Claim C3. (1) First run: the configuration file is absent, the example exists and
  evaluates to \<open>c\<close>, and the file system does not fail. Then the load returns normally,
  config/config.js now holds the text of the example, and \<^verbatim>\<open>Config\<close> is \<open>c\<close>.
  (2) A configuration file that exists is never written. (3) Any other failure aborts:
  an exception of \<^verbatim>\<open>require.resolve\<close> whose code is not MODULE_NOT_FOUND is thrown again;
  an exception pending from the \<^verbatim>\<open>try\<close> or \<^verbatim>\<open>catch\<close> part (the copy failed) survives the
  \<^verbatim>\<open>finally\<close> part, unless that part throws itself; an exception of the \<^verbatim>\<open>require\<close> in
  the \<^verbatim>\<open>finally\<close> part is thrown; and when the load throws, startup ends there with that
  exception.
\<close>

theorem config_first_load:
  "(files s cfgPath = None \<and> files s examplePath = Some tpl \<and> evalConfig w tpl = Inr c
      \<and> modcache s cfgPath = None
      \<and> (\<forall>h. fault w h (Resolve cfgName) = None \<and> fault w h (ReadFile examplePath) = None
            \<and> fault w h (WriteFile cfgPath) = None)
    \<longrightarrow> loadConfig w s =
     (Inr (), s\<lparr>files := (files s)(cfgPath \<mapsto> tpl),
               modcache := (modcache s)(cfgPath \<mapsto> GConfig c),
               globals := (globals s)(''Config'' \<mapsto> GConfig c),
               trace := trace s @
                 [Failed (Resolve cfgName)
                    (JSError notFound ''Cannot find module ./config/config''
                       ''Error: Cannot find module ./config/config''),
                  Log ''config.js doesn't exist - creating one with default settings...'',
                  Did (WriteFile cfgPath), Did (Load cfgPath)]\<rparr>))
   \<and> (files s cfgPath = Some x
        \<and> (\<forall>h e'. fault w h (Resolve cfgName) = Some e' \<longrightarrow> code e' \<noteq> notFound)
      \<longrightarrow> files (snd (loadConfig w s)) = files s)
   \<and> (fst (resolve w cfgName s) = Inl e \<and> code e \<noteq> notFound \<longrightarrow> fst (locateConfig w s) = Inl e)
   \<and> (fst (locateConfig w s) = Inl e \<longrightarrow> (\<exists>e'. fst (loadConfig w s) = Inl e'))
   \<and> (fst (locateConfig w s) = Inl e
        \<and> fst (setGlobalRequire w ''Config'' cfgName (snd (locateConfig w s))) = Inr ()
      \<longrightarrow> fst (loadConfig w s) = Inl e)
   \<and> (fst (setGlobalRequire w ''Config'' cfgName (snd (locateConfig w s))) = Inl e
      \<longrightarrow> fst (loadConfig w s) = Inl e)
   \<and> (fst (dependencyCheck w s0) = Inr () \<and> fst (loadConfig w (snd (dependencyCheck w s0))) = Inl e
      \<longrightarrow> startup w s0 = (Inl e, snd (loadConfig w (snd (dependencyCheck w s0)))))"
proof -
  have p2: "files s cfgPath = Some x
        \<and> (\<forall>h e'. fault w h (Resolve cfgName) = Some e' \<longrightarrow> code e' \<noteq> notFound)
      \<longrightarrow> files (snd (loadConfig w s)) = files s"
    unfolding loadConfig_def tryFinally_files using locateConfig_present [of s x w] by blast
  show ?thesis
    using first_run [of s tpl w c] p2 locateConfig_rethrows [of w s e]
      tryFinally_fails_left [of "locateConfig w" s e "setGlobalRequire w ''Config'' cfgName"]
      tryFinally_rethrows [of "locateConfig w" s e "setGlobalRequire w ''Config'' cfgName"]
      tryFinally_fails_right [of "setGlobalRequire w ''Config'' cfgName" "locateConfig w" s e]
      startup_aborts_at_config [of w s0 e]
    unfolding loadConfig_def [symmetric]
    by blast
qed

theorem config_first_load_witness:
  "fst (loadConfig exampleWorld (freshProc [examplePath \<mapsto> guardedText] allPackages)) = Inr ()
   \<and> files (snd (loadConfig exampleWorld (freshProc [examplePath \<mapsto> guardedText] allPackages))) cfgPath
       = Some guardedText
   \<and> globals (snd (loadConfig exampleWorld (freshProc [examplePath \<mapsto> guardedText] allPackages))) ''Config''
       = Some (GConfig [(''crashguard'', JBool True), (''watchconfig'', JBool True)])
   \<and> files (snd (loadConfig exampleWorld
        (freshProc [cfgPath \<mapsto> plainText, examplePath \<mapsto> guardedText] allPackages))) cfgPath
       = Some plainText
   \<and> fst (startup exampleWorld (freshProc [cfgPath \<mapsto> ''exports.crashguard = ;''] allPackages))
       = Inl (JSError [] ''Unexpected token'' ''SyntaxError: Unexpected token'')
   \<and> fst (loadConfig exampleWorld (freshProc [cfgPath \<mapsto> ''exports.crashguard = ;''] allPackages))
       = Inl (JSError [] ''Unexpected token'' ''SyntaxError: Unexpected token'')
   \<and> fst (loadConfig flakyWorld (freshProc [cfgPath \<mapsto> guardedText] allPackages))
       = Inl (JSError ''EACCES'' ''permission denied'' ''Error: permission denied'')
   \<and> globals (snd (loadConfig flakyWorld (freshProc [cfgPath \<mapsto> guardedText] allPackages))) ''Config''
       = Some (GConfig [(''crashguard'', JBool True), (''watchconfig'', JBool True)])"
proof -
  let ?c = "[(''crashguard'', JBool True), (''watchconfig'', JBool True)]"
  let ?s = "freshProc [examplePath \<mapsto> guardedText] allPackages"
  let ?s2 = "freshProc [cfgPath \<mapsto> plainText, examplePath \<mapsto> guardedText] allPackages"
  let ?s3 = "freshProc [cfgPath \<mapsto> ''exports.crashguard = ;''] allPackages"
  let ?e = "JSError [] ''Unexpected token'' ''SyntaxError: Unexpected token''"
  have a: "loadConfig exampleWorld ?s =
     (Inr (), ?s\<lparr>files := (files ?s)(cfgPath \<mapsto> guardedText),
               modcache := (modcache ?s)(cfgPath \<mapsto> GConfig ?c),
               globals := (globals ?s)(''Config'' \<mapsto> GConfig ?c),
               trace := trace ?s @
                 [Failed (Resolve cfgName)
                    (JSError notFound ''Cannot find module ./config/config''
                       ''Error: Cannot find module ./config/config''),
                  Log ''config.js doesn't exist - creating one with default settings...'',
                  Did (WriteFile cfgPath), Did (Load cfgPath)]\<rparr>)"
    using config_first_load [where s = ?s and w = exampleWorld and tpl = guardedText and c = ?c]
    by (simp add: example_defs)
  have b: "files (snd (loadConfig exampleWorld ?s2)) = files ?s2"
    using config_first_load [where s = ?s2 and w = exampleWorld and x = plainText]
    by (simp add: example_defs)
  have d: "fst (dependencyCheck exampleWorld ?s3) = Inr ()"
    by (simp add: monad_defs node_defs dependencyCheck_def example_defs)
  have l: "fst (loadConfig exampleWorld (snd (dependencyCheck exampleWorld ?s3))) = Inl ?e"
    by (simp add: monad_defs node_defs dependencyCheck_def loadConfig_def locateConfig_def example_defs)
  have c: "startup exampleWorld ?s3 = (Inl ?e, snd (loadConfig exampleWorld (snd (dependencyCheck exampleWorld ?s3))))"
    using config_first_load [where s0 = ?s3 and w = exampleWorld and e = ?e] d l by blast
  let ?s4 = "freshProc [cfgPath \<mapsto> guardedText] allPackages"
  let ?x = "JSError ''EACCES'' ''permission denied'' ''Error: permission denied''"
  have rq: "fst (setGlobalRequire exampleWorld ''Config'' cfgName (snd (locateConfig exampleWorld ?s3))) = Inl ?e"
    by (simp add: monad_defs node_defs locateConfig_def example_defs)
  have e6: "fst (loadConfig exampleWorld ?s3) = Inl ?e"
    using config_first_load [where s = ?s3 and w = exampleWorld and e = ?e] rq by blast
  have r: "fst (resolve flakyWorld cfgName ?s4) = Inl ?x \<and> code ?x \<noteq> notFound"
    by (simp add: resolve_def failOp_def flakyWorld_def example_defs)
  have lc: "fst (locateConfig flakyWorld ?s4) = Inl ?x"
    using config_first_load [where s = ?s4 and w = flakyWorld and e = ?x] r by blast
  have fin: "fst (setGlobalRequire flakyWorld ''Config'' cfgName (snd (locateConfig flakyWorld ?s4))) = Inr ()"
    by (simp add: monad_defs node_defs locateConfig_def flakyWorld_def example_defs)
  have e5: "fst (loadConfig flakyWorld ?s4) = Inl ?x"
    using config_first_load [where s = ?s4 and w = flakyWorld and e = ?x] lc fin by blast
  have g5: "globals (snd (loadConfig flakyWorld ?s4)) ''Config'' = Some (GConfig ?c)"
    by (simp add: monad_defs node_defs loadConfig_def locateConfig_def flakyWorld_def example_defs)
  show ?thesis
    unfolding a b c e5 e6 g5 by (simp add: freshProc_def)
qed


section \<open>Runs of the startup sequence that succeed\<close>

subsection \<open>Agreement with the quiet environment\<close>

lemma quiet_simps [simp]:
  "fault (quiet w) h p = None" "isMain (quiet w) = isMain w" "evalConfig (quiet w) = evalConfig w"
  by (simp_all add: quiet_def)

lemma agrees_refl: "agrees c c"
  by (simp add: agrees_def)

lemma agrees_bind:
  assumes "agrees m' m" and "\<And>x. agrees (f' x) (f x)"
  shows "agrees (jsBind m' f') (jsBind m f)"
  unfolding agrees_def
proof (intro allI impI)
  fix s y
  assume h: "fst (jsBind m f s) = Inr y"
  obtain r s1 where m: "m s = (r, s1)" by (cases "m s") auto
  show "jsBind m' f' s = jsBind m f s"
  proof (cases r)
    case (Inl e)
    with h m show ?thesis by (simp add: jsBind_def)
  next
    case (Inr x)
    with m have "fst (m s) = Inr x" by simp
    with assms(1) have m': "m' s = m s" by (simp add: agrees_def)
    from h m Inr have "fst (f x s1) = Inr y" by (simp add: jsBind_def)
    with assms(2) have "f' x s1 = f x s1" by (simp add: agrees_def)
    with m m' Inr show ?thesis by (simp add: jsBind_def)
  qed
qed

lemma agrees_block:
  "list_all2 agrees cs' cs \<Longrightarrow> agrees (block cs') (block cs)"
proof (induction cs' cs rule: list_all2_induct)
  case Nil
  then show ?case by (simp add: agrees_refl)
next
  case (Cons c' cs' c cs)
  show ?case
    unfolding agrees_def
  proof (intro allI impI)
    fix s x
    assume h: "fst (block (c # cs) s) = Inr x"
    obtain r s1 where c: "c s = (r, s1)" by (cases "c s") auto
    show "block (c' # cs') s = block (c # cs) s"
    proof (cases r)
      case (Inl e)
      with h c show ?thesis by simp
    next
      case (Inr u)
      with c have "fst (c s) = Inr u" by simp
      with Cons.hyps(1) have c': "c' s = c s" by (simp add: agrees_def)
      from h c Inr have "fst (block cs s1) = Inr x" by simp
      with Cons.IH have "block cs' s1 = block cs s1" by (simp add: agrees_def)
      with c c' Inr show ?thesis by simp
    qed
  qed
qed

lemma agrees_perform: "agrees (perform (quiet w) p) (perform w p)"
  by (auto simp: agrees_def perform_def quiet_def failOp_def split: option.splits)

lemma agrees_resolve: "agrees (resolve (quiet w) n) (resolve w n)"
  by (auto simp: agrees_def resolve_def quiet_def failOp_def lookup_def split: option.splits)

lemma agrees_evaluate: "agrees (evaluate (quiet w) p) (evaluate w p)"
  by (auto simp: agrees_def evaluate_def quiet_def failOp_def split: option.splits sum.splits)

lemma agrees_require: "agrees (require (quiet w) n) (require w n)"
  unfolding require_def
proof (rule agrees_bind [OF agrees_resolve])
  fix p
  show "agrees (\<lambda>s. case modcache s p of None \<Rightarrow> evaluate (quiet w) p s | Some m \<Rightarrow> (Inr m, s))
          (\<lambda>s. case modcache s p of None \<Rightarrow> evaluate w p s | Some m \<Rightarrow> (Inr m, s))"
    using agrees_evaluate [of w p] by (auto simp: agrees_def split: option.splits)
qed

lemma agrees_setGlobalRequire: "agrees (setGlobalRequire (quiet w) g n) (setGlobalRequire w g n)"
  unfolding setGlobalRequire_def by (intro agrees_bind agrees_require agrees_refl)

lemma agrees_callGlobal: "agrees (callGlobal (quiet w) g m) (callGlobal w g m)"
  unfolding callGlobal_def by (intro agrees_bind agrees_perform agrees_refl)

lemma agrees_setupGlobals: "agrees (setupGlobals (quiet w)) (setupGlobals w)"
  unfolding setupGlobals_def
  by (intro agrees_block list.rel_intros agrees_setGlobalRequire agrees_callGlobal agrees_bind
      agrees_require agrees_perform agrees_refl)

lemma agrees_if:
  "agrees a' a \<Longrightarrow> agrees b' b \<Longrightarrow> agrees (if t then a' else b') (if t then a else b)"
  by simp

lemma agrees_networking: "agrees (networking (quiet w)) (networking w)"
  unfolding networking_def quiet_simps
  by (intro agrees_block list.rel_intros agrees_setGlobalRequire agrees_callGlobal agrees_if agrees_refl)

lemma agrees_lastGlobal: "agrees (lastGlobal (quiet w)) (lastGlobal w)"
  unfolding lastGlobal_def
  by (intro agrees_block list.rel_intros agrees_setGlobalRequire agrees_callGlobal agrees_refl)

lemma agrees_startRepl: "agrees (startRepl (quiet w)) (startRepl w)"
  unfolding startRepl_def
  by (intro agrees_bind agrees_require agrees_perform)

lemma agrees_watchConfig: "agrees (watchConfig (quiet w)) (watchConfig w)"
  unfolding watchConfig_def ifConfig_def
  by (intro agrees_bind agrees_resolve agrees_if agrees_refl)

lemma agreesD: "agrees c' c \<Longrightarrow> fst (c s) = Inr x \<Longrightarrow> c s = c' s"
  by (simp add: agrees_def)

lemma block_Cons_succeeds:
  assumes "fst (block (c # cs) s) = Inr ()"
  shows "fst (c s) = Inr () \<and> fst (block cs (snd (c s))) = Inr ()
    \<and> block (c # cs) s = block cs (snd (c s))"
proof -
  obtain r s1 where c: "c s = (r, s1)" by (cases "c s") auto
  show ?thesis using assms c by (cases r) simp_all
qed

subsection \<open>The phases, one by one\<close>

lemmas eval_defs = jsBind_def jsReturn_def jsThrow_def emit_def failOp_def perform_def
  resolve_def lookup_def evaluate_def require_def setGlobal_def getGlobal_def
  setGlobalRequire_def callGlobal_def configOption_def ifConfig_def deleteProcessSend_def

lemma setupGlobals_quiet:
  assumes "modcache s = [cfgPath \<mapsto> GConfig c]"
    and "globals s ''Config'' = Some (GConfig c)"
    and "''sqlite3'' \<in> set (packages s)" and "''origindb'' \<in> set (packages s)"
    and "ladders (optionValue c ''remoteladder'') = l"
    and "l = ''./ladders'' \<or> l = ''./ladders-remote''"
  shows "(case setupGlobals (quiet w) s of
      (r, s') \<Rightarrow> r = Inr ()
        \<and> trace s' = trace s @
           [Did (Load ''node_modules/sqlite3''), Did (Load ''node_modules/origindb''),
            Did (Call ''origindb''), Did (Load ''./monitor''), Did (Load ''./tools''),
            Did (Load ''./loginserver''), Did (Load l),
            Did (Load ''./users''), Did (Load ''./punishments''),
            Did (Load ''./chat''), Did (Load ''./rooms''), Did (Load ''./tells.js''),
            Did (Load ''./verifier''), Did (Call ''Verifier.PM.spawn''),
            Did (Load ''./tournaments''), Did (Load ''./dnsbl''),
            Did (Call ''Dnsbl.loadDatacenters'')]
        \<and> globals s' ''Config'' = Some (GConfig c)
        \<and> globals s' ''Tools'' = Some (GExports ''./tools'')
        \<and> globals s' ''Ladders'' = Some (GExports l)
        \<and> modcache s' ''./sockets'' = None
        \<and> modcache s' ''./team-validator'' = None
        \<and> modcache s' ''./repl'' = None
        \<and> listeners s' = listeners s
        \<and> packages s' = packages s
        \<and> files s' = files s
        \<and> modcache s' cfgPath = Some (GConfig c)
        \<and> modcache s' l = Some (GExports l)
        \<and> (\<forall>p \<in> set [''node_modules/sqlite3'', ''node_modules/origindb'', ''./monitor'',
              ''./tools'', ''./loginserver'', ''./users'', ''./punishments'', ''./chat'',
              ''./rooms'', ''./tells.js'', ''./verifier'', ''./tournaments'', ''./dnsbl''].
             modcache s' p = Some (GExports p)))"
proof -
  from assms(6) show ?thesis
  proof
    assume "l = ''./ladders''"
    with assms(1-5) show ?thesis
      by (simp add: setupGlobals_def eval_defs)
  next
    assume "l = ''./ladders-remote''"
    with assms(1-5) show ?thesis
      by (simp add: setupGlobals_def eval_defs)
  qed
qed

lemma setupGlobals_needs_sqlite3:
  "''sqlite3'' \<notin> set (packages s) \<Longrightarrow> fst (setupGlobals (quiet w) s) \<noteq> Inr ()"
  by (simp add: setupGlobals_def eval_defs)

lemma setupGlobals_needs_origindb:
  "modcache s = [cfgPath \<mapsto> GConfig c] \<Longrightarrow> ''sqlite3'' \<in> set (packages s) \<Longrightarrow>
   ''origindb'' \<notin> set (packages s) \<Longrightarrow> fst (setupGlobals (quiet w) s) \<noteq> Inr ()"
  by (simp add: setupGlobals_def eval_defs)

lemma setupGlobals_ok:
  assumes "fst (setupGlobals w s) = Inr ()"
    and "modcache s = [cfgPath \<mapsto> GConfig c]"
    and "globals s ''Config'' = Some (GConfig c)"
  shows "(case setupGlobals w s of
      (r, s') \<Rightarrow> r = Inr ()
        \<and> trace s' = trace s @
           [Did (Load ''node_modules/sqlite3''), Did (Load ''node_modules/origindb''),
            Did (Call ''origindb''), Did (Load ''./monitor''), Did (Load ''./tools''),
            Did (Load ''./loginserver''), Did (Load (ladders (optionValue c ''remoteladder''))),
            Did (Load ''./users''), Did (Load ''./punishments''),
            Did (Load ''./chat''), Did (Load ''./rooms''), Did (Load ''./tells.js''),
            Did (Load ''./verifier''), Did (Call ''Verifier.PM.spawn''),
            Did (Load ''./tournaments''), Did (Load ''./dnsbl''),
            Did (Call ''Dnsbl.loadDatacenters'')]
        \<and> globals s' ''Config'' = Some (GConfig c)
        \<and> globals s' ''Tools'' = Some (GExports ''./tools'')
        \<and> globals s' ''Ladders'' = Some (GExports (ladders (optionValue c ''remoteladder'')))
        \<and> modcache s' ''./sockets'' = None
        \<and> modcache s' ''./team-validator'' = None
        \<and> modcache s' ''./repl'' = None
        \<and> listeners s' = listeners s
        \<and> packages s' = packages s
        \<and> files s' = files s
        \<and> modcache s' cfgPath = Some (GConfig c)
        \<and> modcache s' (ladders (optionValue c ''remoteladder''))
            = Some (GExports (ladders (optionValue c ''remoteladder'')))
        \<and> (\<forall>p \<in> set [''node_modules/sqlite3'', ''node_modules/origindb'', ''./monitor'',
              ''./tools'', ''./loginserver'', ''./users'', ''./punishments'', ''./chat'',
              ''./rooms'', ''./tells.js'', ''./verifier'', ''./tournaments'', ''./dnsbl''].
             modcache s' p = Some (GExports p))
        \<and> ''sqlite3'' \<in> set (packages s) \<and> ''origindb'' \<in> set (packages s))"
proof -
  have eq: "setupGlobals w s = setupGlobals (quiet w) s"
    using agrees_setupGlobals assms(1) by (rule agreesD)
  have q: "fst (setupGlobals (quiet w) s) = Inr ()"
    using assms(1) eq by simp
  have p1: "''sqlite3'' \<in> set (packages s)"
    using setupGlobals_needs_sqlite3 [of s w] q by blast
  have p2: "''origindb'' \<in> set (packages s)"
    using setupGlobals_needs_origindb [OF assms(2) p1, of w] q by blast
  have l: "ladders (optionValue c ''remoteladder'') = ''./ladders''
      \<or> ladders (optionValue c ''remoteladder'') = ''./ladders-remote''"
    by (simp add: ladders_def)
  show ?thesis
    unfolding eq using setupGlobals_quiet [OF assms(2,3) p1 p2 refl l, of w] p1 p2
    by (simp add: case_prod_unfold)
qed

lemma networking_quiet:
  "modcache s ''./sockets'' = None \<Longrightarrow>
   (case networking (quiet w) s of
      (r, s') \<Rightarrow> r = Inr ()
        \<and> trace s' = trace s @ Did (Load ''./sockets'')
             # (if isMain w then [Did (Call ''Sockets.listen'')] else [])
        \<and> globals s' ''Tools'' = globals s ''Tools''
        \<and> globals s' ''Config'' = globals s ''Config''
        \<and> (\<forall>q. q \<noteq> ''./sockets'' \<longrightarrow> modcache s' q = modcache s q)
        \<and> modcache s' ''./sockets'' = Some (GExports ''./sockets'')
        \<and> packages s' = packages s \<and> files s' = files s
        \<and> listeners s' = listeners s)"
  by (simp add: networking_def eval_defs exportListen_def)

lemma networking_ok:
  assumes "fst (networking w s) = Inr ()" and "modcache s ''./sockets'' = None"
  shows "(case networking w s of
      (r, s') \<Rightarrow> r = Inr ()
        \<and> trace s' = trace s @ Did (Load ''./sockets'')
             # (if isMain w then [Did (Call ''Sockets.listen'')] else [])
        \<and> globals s' ''Tools'' = globals s ''Tools''
        \<and> globals s' ''Config'' = globals s ''Config''
        \<and> (\<forall>q. q \<noteq> ''./sockets'' \<longrightarrow> modcache s' q = modcache s q)
        \<and> modcache s' ''./sockets'' = Some (GExports ''./sockets'')
        \<and> packages s' = packages s \<and> files s' = files s
        \<and> listeners s' = listeners s)"
  unfolding agreesD [OF agrees_networking assms(1)] using assms(2) by (rule networking_quiet)

lemma lastGlobal_quiet:
  "modcache s ''./team-validator'' = None \<Longrightarrow> globals s ''Tools'' = Some t \<Longrightarrow>
   (case lastGlobal (quiet w) s of
      (r, s') \<Rightarrow> r = Inr ()
        \<and> trace s' = trace s @
            [Did (Call ''Tools.includeFormats''), Did (Load ''./team-validator''),
             Did (Call ''TeamValidator.PM.spawn'')]
        \<and> globals s' ''Config'' = globals s ''Config''
        \<and> (\<forall>q. q \<noteq> ''./team-validator'' \<longrightarrow> modcache s' q = modcache s q)
        \<and> modcache s' ''./team-validator'' = Some (GExports ''./team-validator'')
        \<and> packages s' = packages s \<and> files s' = files s
        \<and> listeners s' = listeners s)"
  by (simp add: lastGlobal_def eval_defs)

lemma lastGlobal_ok:
  assumes "fst (lastGlobal w s) = Inr ()" and "modcache s ''./team-validator'' = None"
    and "globals s ''Tools'' = Some t"
  shows "(case lastGlobal w s of
      (r, s') \<Rightarrow> r = Inr ()
        \<and> trace s' = trace s @
            [Did (Call ''Tools.includeFormats''), Did (Load ''./team-validator''),
             Did (Call ''TeamValidator.PM.spawn'')]
        \<and> globals s' ''Config'' = globals s ''Config''
        \<and> (\<forall>q. q \<noteq> ''./team-validator'' \<longrightarrow> modcache s' q = modcache s q)
        \<and> modcache s' ''./team-validator'' = Some (GExports ''./team-validator'')
        \<and> packages s' = packages s \<and> files s' = files s
        \<and> listeners s' = listeners s)"
  unfolding agreesD [OF agrees_lastGlobal assms(1)] using assms(2,3) by (rule lastGlobal_quiet)

lemma startRepl_quiet:
  "modcache s ''./repl'' = None \<Longrightarrow>
   (case startRepl (quiet w) s of
      (r, s') \<Rightarrow> r = Inr ()
        \<and> trace s' = trace s @ [Did (Load ''./repl''), Did (Call ''repl.start'')]
        \<and> globals s' ''Config'' = globals s ''Config''
        \<and> (\<forall>q. q \<noteq> ''./repl'' \<longrightarrow> modcache s' q = modcache s q)
        \<and> modcache s' ''./repl'' = Some (GExports ''./repl'')
        \<and> packages s' = packages s \<and> files s' = files s
        \<and> listeners s' = listeners s)"
  by (simp add: startRepl_def eval_defs)

lemma startRepl_ok:
  assumes "fst (startRepl w s) = Inr ()" and "modcache s ''./repl'' = None"
  shows "(case startRepl w s of
      (r, s') \<Rightarrow> r = Inr ()
        \<and> trace s' = trace s @ [Did (Load ''./repl''), Did (Call ''repl.start'')]
        \<and> globals s' ''Config'' = globals s ''Config''
        \<and> (\<forall>q. q \<noteq> ''./repl'' \<longrightarrow> modcache s' q = modcache s q)
        \<and> modcache s' ''./repl'' = Some (GExports ''./repl'')
        \<and> packages s' = packages s \<and> files s' = files s
        \<and> listeners s' = listeners s)"
  unfolding agreesD [OF agrees_startRepl assms(1)] using assms(2) by (rule startRepl_quiet)

lemma watchConfig_quiet:
  "globals s ''Config'' = Some (GConfig c) \<Longrightarrow> files s cfgPath = Some src \<Longrightarrow>
   watchConfig (quiet w) s =
     (Inr (), if truthy (optionValue c ''watchconfig'')
              then s\<lparr>watchers := watchers s @ [cfgPath], trace := trace s @ [WatchFile cfgPath]\<rparr>
              else s)"
  by (simp add: watchConfig_def eval_defs watchFile_def)

lemma watchConfig_quiet_missing:
  "globals s ''Config'' = Some (GConfig c) \<Longrightarrow> files s cfgPath = None \<Longrightarrow>
   truthy (optionValue c ''watchconfig'') \<Longrightarrow> fst (watchConfig (quiet w) s) \<noteq> Inr ()"
  by (simp add: watchConfig_def eval_defs watchFile_def)

lemma watchConfig_off:
  "globals s ''Config'' = Some (GConfig c) \<Longrightarrow> \<not> truthy (optionValue c ''watchconfig'') \<Longrightarrow>
   watchConfig w s = (Inr (), s)"
  by (simp add: watchConfig_def eval_defs watchFile_def)

lemma watchConfig_ok:
  assumes "fst (watchConfig w s) = Inr ()" and "globals s ''Config'' = Some (GConfig c)"
  shows "watchConfig w s =
     (Inr (), if truthy (optionValue c ''watchconfig'')
              then s\<lparr>watchers := watchers s @ [cfgPath], trace := trace s @ [WatchFile cfgPath]\<rparr>
              else s)"
proof (cases "truthy (optionValue c ''watchconfig'')")
  case False
  then show ?thesis using watchConfig_off [OF assms(2)] by simp
next
  case True
  have eq: "watchConfig w s = watchConfig (quiet w) s"
    using agrees_watchConfig assms(1) by (rule agreesD)
  show ?thesis
  proof (cases "files s cfgPath")
    case None
    from watchConfig_quiet_missing [OF assms(2) None True, of w] assms(1) eq
    show ?thesis by simp
  next
    case (Some src)
    from watchConfig_quiet [OF assms(2) Some, of w] eq show ?thesis by simp
  qed
qed

lemma resolve_cases:
  "(\<exists>p. resolve w n s = (Inr p, s) \<and> lookup s n = Some p)
   \<or> (\<exists>e. resolve w n s = (Inl e, s\<lparr>trace := trace s @ [Failed (Resolve n) e]\<rparr>))"
  by (simp add: resolve_def failOp_def split: option.splits)

lemma dependencyCheck_ok:
  assumes "fst (dependencyCheck w s) = Inr ()"
  shows "modcache (snd (dependencyCheck w s)) = modcache s
    \<and> globals (snd (dependencyCheck w s)) = globals s
    \<and> listeners (snd (dependencyCheck w s)) = listeners s
    \<and> (trace (snd (dependencyCheck w s)) = trace s
       \<or> (\<exists>e. trace (snd (dependencyCheck w s)) = trace s @
            [Failed (Resolve ''sockjs'') e,
             Log ''Installing dependencies: `npm install --production`...'',
             SpawnSync ''sh -c npm install --production'']))"
proof -
  from resolve_cases [of w "''sockjs''" s] show ?thesis
  proof (elim disjE exE conjE)
    fix p
    assume "resolve w ''sockjs'' s = (Inr p, s)"
    then show ?thesis
      by (simp add: dependencyCheck_def tryCatch_def jsBind_def jsReturn_def)
  next
    fix e
    assume r: "resolve w ''sockjs'' s = (Inl e, s\<lparr>trace := trace s @ [Failed (Resolve ''sockjs'') e]\<rparr>)"
    show ?thesis
    proof (cases "isMain w")
      case True
      with r show ?thesis
        by (simp add: dependencyCheck_def tryCatch_def jsBind_def emit_def spawnSync_def)
    next
      case False
      with r assms show ?thesis
        by (simp add: dependencyCheck_def tryCatch_def jsBind_def jsThrow_def)
    qed
  qed
qed

lemma tryFinally_ok:
  assumes "fst (tryFinally m f s) = Inr x"
  shows "fst (m s) = Inr x \<and> fst (f (snd (m s))) = Inr ()
    \<and> snd (tryFinally m f s) = snd (f (snd (m s)))"
proof -
  obtain r s1 where m: "m s = (r, s1)" by (cases "m s") auto
  obtain r2 s2 where f: "f s1 = (r2, s2)" by (cases "f s1") auto
  show ?thesis using assms m f by (cases r2) (simp_all add: tryFinally_def)
qed

lemma copyExample_ok:
  assumes "fst (copyExample w s) = Inr ()"
  shows "\<exists>d. snd (copyExample w s) =
      s\<lparr>files := (files s)(cfgPath \<mapsto> d), trace := trace s @ [Did (WriteFile cfgPath)]\<rparr>"
  using assms
  by (auto simp: copyExample_def jsBind_def readFileSync_def writeFileSync_def failOp_def
      split: option.splits)

lemma locateConfig_ok:
  assumes "fst (locateConfig w s) = Inr ()"
  shows "snd (locateConfig w s) = s
    \<or> (\<exists>e d. snd (locateConfig w s) =
          s\<lparr>files := (files s)(cfgPath \<mapsto> d),
            trace := trace s @
              [Failed (Resolve cfgName) e,
               Log ''config.js doesn't exist - creating one with default settings...'',
               Did (WriteFile cfgPath)]\<rparr>)"
proof -
  from resolve_cases [of w cfgName s] show ?thesis
  proof (elim disjE exE conjE)
    fix p
    assume "resolve w cfgName s = (Inr p, s)"
    then show ?thesis
      by (simp add: locateConfig_def tryCatch_def jsBind_def jsReturn_def)
  next
    fix e
    let ?s1 = "s\<lparr>trace := trace s @ [Failed (Resolve cfgName) e]\<rparr>"
    let ?s2 = "?s1\<lparr>trace := trace ?s1 @ [Log ''config.js doesn't exist - creating one with default settings...'']\<rparr>"
    assume r: "resolve w cfgName s = (Inl e, ?s1)"
    show ?thesis
    proof (cases "code e = notFound")
      case False
      with r assms show ?thesis
        by (simp add: locateConfig_def tryCatch_def jsBind_def jsThrow_def)
    next
      case True
      have l: "locateConfig w s = copyExample w ?s2"
        using r True
        by (cases "copyExample w ?s2")
          (auto simp: locateConfig_def tryCatch_def jsBind_def emit_def split: sum.splits)
      then have "fst (copyExample w ?s2) = Inr ()" using assms by simp
      from copyExample_ok [OF this] show ?thesis
        unfolding l by auto
    qed
  qed
qed

lemma configRequire_ok:
  assumes "fst (setGlobalRequire w ''Config'' cfgName s) = Inr ()"
    and "modcache s cfgPath = None"
  shows "\<exists>c. globals (snd (setGlobalRequire w ''Config'' cfgName s)) = (globals s)(''Config'' \<mapsto> GConfig c)
    \<and> modcache (snd (setGlobalRequire w ''Config'' cfgName s)) = (modcache s)(cfgPath \<mapsto> GConfig c)
    \<and> trace (snd (setGlobalRequire w ''Config'' cfgName s)) = trace s @ [Did (Load cfgPath)]
    \<and> listeners (snd (setGlobalRequire w ''Config'' cfgName s)) = listeners s
    \<and> files (snd (setGlobalRequire w ''Config'' cfgName s)) = files s
    \<and> files s cfgPath \<noteq> None"
  using assms
  by (auto simp: setGlobalRequire_def jsBind_def require_def resolve_def lookup_def evaluate_def
      failOp_def setGlobal_def split: option.splits sum.splits if_splits)

lemma loadConfig_ok:
  assumes "fst (loadConfig w s) = Inr ()" and "modcache s cfgPath = None"
  shows "\<exists>c. globals (snd (loadConfig w s)) = (globals s)(''Config'' \<mapsto> GConfig c)
    \<and> modcache (snd (loadConfig w s)) = (modcache s)(cfgPath \<mapsto> GConfig c)
    \<and> listeners (snd (loadConfig w s)) = listeners s
    \<and> files (snd (loadConfig w s)) cfgPath \<noteq> None
    \<and> (trace (snd (loadConfig w s)) = trace s @ [Did (Load cfgPath)]
       \<or> (\<exists>e. trace (snd (loadConfig w s)) = trace s @
            [Failed (Resolve cfgName) e,
             Log ''config.js doesn't exist - creating one with default settings...'',
             Did (WriteFile cfgPath), Did (Load cfgPath)]))"
proof -
  let ?s1 = "snd (locateConfig w s)"
  from tryFinally_ok [OF assms(1) [unfolded loadConfig_def]]
  have a: "fst (locateConfig w s) = Inr ()"
    and b: "fst (setGlobalRequire w ''Config'' cfgName ?s1) = Inr ()"
    and c: "snd (loadConfig w s) = snd (setGlobalRequire w ''Config'' cfgName ?s1)"
    by (simp_all add: loadConfig_def)
  from locateConfig_ok [OF a] have m: "modcache ?s1 = modcache s" and g: "globals ?s1 = globals s"
    and l: "listeners ?s1 = listeners s"
    by auto
  from configRequire_ok [OF b] m assms(2) obtain cf where
    d: "globals (snd (loadConfig w s)) = (globals s)(''Config'' \<mapsto> GConfig cf)"
      "modcache (snd (loadConfig w s)) = (modcache s)(cfgPath \<mapsto> GConfig cf)"
      "trace (snd (loadConfig w s)) = trace ?s1 @ [Did (Load cfgPath)]"
      "listeners (snd (loadConfig w s)) = listeners s"
      "files (snd (loadConfig w s)) cfgPath \<noteq> None"
    unfolding c using g l by auto
  from locateConfig_ok [OF a] show ?thesis
  proof (elim disjE exE)
    assume "?s1 = s"
    then show ?thesis using d by auto
  next
    fix e dd
    assume "?s1 = s\<lparr>files := (files s)(cfgPath \<mapsto> dd),
            trace := trace s @
              [Failed (Resolve cfgName) e,
               Log ''config.js doesn't exist - creating one with default settings...'',
               Did (WriteFile cfgPath)]\<rparr>"
    then show ?thesis using d by auto
  qed
qed

subsection \<open>The whole sequence\<close>

lemma startup_run:
  assumes "fst (startup w s) = Inr ()" and "modcache s = Map.empty"
  shows "\<exists>c D C. globals (snd (startup w s)) ''Config'' = Some (GConfig c)
     \<and> (D = [] \<or> (\<exists>e. D = [Failed (Resolve ''sockjs'') e,
             Log ''Installing dependencies: `npm install --production`...'',
             SpawnSync ''sh -c npm install --production'']))
     \<and> (C = [] \<or> (\<exists>e. C = [Failed (Resolve cfgName) e,
             Log ''config.js doesn't exist - creating one with default settings...'',
             Did (WriteFile cfgPath)]))
     \<and> trace (snd (startup w s)) = trace s @ D @ C @ [Did (Load cfgPath)]
         @ (if truthy (optionValue c ''watchconfig'') then [WatchFile cfgPath] else [])
         @ [Did (Load ''node_modules/sqlite3''), Did (Load ''node_modules/origindb''),
            Did (Call ''origindb''), Did (Load ''./monitor''), Did (Load ''./tools''),
            Did (Load ''./loginserver''), Did (Load (ladders (optionValue c ''remoteladder''))),
            Did (Load ''./users''), Did (Load ''./punishments''),
            Did (Load ''./chat''), Did (Load ''./rooms''), Did (Load ''./tells.js''),
            Did (Load ''./verifier''), Did (Call ''Verifier.PM.spawn''),
            Did (Load ''./tournaments''), Did (Load ''./dnsbl''),
            Did (Call ''Dnsbl.loadDatacenters'')]
         @ (if truthy (optionValue c ''crashguard'')
            then [On ''uncaughtException'', On ''unhandledRejection'', On ''exit''] else [])
         @ Did (Load ''./sockets'') # (if isMain w then [Did (Call ''Sockets.listen'')] else [])
         @ [Did (Call ''Tools.includeFormats''), Did (Load ''./team-validator''),
            Did (Call ''TeamValidator.PM.spawn''), Did (Load ''./repl''), Did (Call ''repl.start'')]
     \<and> files (snd (startup w s)) cfgPath \<noteq> None
     \<and> ''sqlite3'' \<in> set (packages (snd (startup w s)))
     \<and> ''origindb'' \<in> set (packages (snd (startup w s)))
     \<and> modcache (snd (startup w s)) cfgPath = Some (GConfig c)
     \<and> (\<forall>p \<in> set [ladders (optionValue c ''remoteladder''),
              ''node_modules/sqlite3'', ''node_modules/origindb'', ''./monitor'',
              ''./tools'', ''./loginserver'', ''./users'', ''./punishments'', ''./chat'',
              ''./rooms'', ''./tells.js'', ''./verifier'', ''./tournaments'', ''./dnsbl'',
              ''./sockets'', ''./team-validator'', ''./repl''].
           modcache (snd (startup w s)) p = Some (GExports p))"
proof -
  let ?s1 = "snd (dependencyCheck w s)"
  let ?s2 = "snd (loadConfig w ?s1)"
  let ?s3 = "snd (watchConfig w ?s2)"
  let ?s4 = "snd (setupGlobals w ?s3)"
  let ?s5 = "snd (crashGuard ?s4)"
  let ?s6 = "snd (networking w ?s5)"
  let ?s7 = "snd (lastGlobal w ?s6)"
  let ?s8 = "snd (startRepl w ?s7)"
  note b1 = block_Cons_succeeds [OF assms(1) [unfolded startup_def]]
  note b2 = block_Cons_succeeds [OF b1 [THEN conjunct2, THEN conjunct1]]
  note b3 = block_Cons_succeeds [OF b2 [THEN conjunct2, THEN conjunct1]]
  note b4 = block_Cons_succeeds [OF b3 [THEN conjunct2, THEN conjunct1]]
  note b5 = block_Cons_succeeds [OF b4 [THEN conjunct2, THEN conjunct1]]
  note b6 = block_Cons_succeeds [OF b5 [THEN conjunct2, THEN conjunct1]]
  note b7 = block_Cons_succeeds [OF b6 [THEN conjunct2, THEN conjunct1]]
  note b8 = block_Cons_succeeds [OF b7 [THEN conjunct2, THEN conjunct1]]
  have fin: "snd (startup w s) = ?s8"
    unfolding startup_def
    using b1 b2 b3 b4 b5 b6 b7 b8 by simp
  have d1: "fst (dependencyCheck w s) = Inr ()" using b1 by blast
  have d2: "fst (loadConfig w ?s1) = Inr ()" using b2 by blast
  have d3: "fst (watchConfig w ?s2) = Inr ()" using b3 by blast
  have d4: "fst (setupGlobals w ?s3) = Inr ()" using b4 by blast
  have d6: "fst (networking w ?s5) = Inr ()" using b6 by blast
  have d7: "fst (lastGlobal w ?s6) = Inr ()" using b7 by blast
  have d8: "fst (startRepl w ?s7) = Inr ()" using b8 by blast
  from dependencyCheck_ok [OF d1] assms(2) obtain D where
    m1: "modcache ?s1 = Map.empty" and t1: "trace ?s1 = trace s @ D"
    and D: "D = [] \<or> (\<exists>e. D = [Failed (Resolve ''sockjs'') e,
             Log ''Installing dependencies: `npm install --production`...'',
             SpawnSync ''sh -c npm install --production''])"
    by auto
  have m1': "modcache ?s1 cfgPath = None" using m1 by simp
  from loadConfig_ok [OF d2 m1'] m1 obtain c C where
    g2: "globals ?s2 ''Config'' = Some (GConfig c)"
    and m2: "modcache ?s2 = [cfgPath \<mapsto> GConfig c]"
    and t2: "trace ?s2 = trace ?s1 @ C @ [Did (Load cfgPath)]"
    and C: "C = [] \<or> (\<exists>e. C = [Failed (Resolve cfgName) e,
             Log ''config.js doesn't exist - creating one with default settings...'',
             Did (WriteFile cfgPath)])"
    by auto
  from watchConfig_ok [OF d3 g2] have
    g3: "globals ?s3 ''Config'' = Some (GConfig c)"
    and m3: "modcache ?s3 = [cfgPath \<mapsto> GConfig c]"
    and t3: "trace ?s3 = trace ?s2
        @ (if truthy (optionValue c ''watchconfig'') then [WatchFile cfgPath] else [])"
    using g2 m2 by simp_all
  note G = setupGlobals_ok [OF d4 m3 g3, unfolded case_prod_unfold]
  have g4: "globals ?s4 ''Config'' = Some (GConfig c)" using G by blast
  have t5: "trace ?s5 = trace ?s4
        @ (if truthy (optionValue c ''crashguard'')
           then [On ''uncaughtException'', On ''unhandledRejection'', On ''exit''] else [])"
    and m5: "modcache ?s5 = modcache ?s4" and g5: "globals ?s5 = globals ?s4"
    using crashGuard_on [OF g4] crashGuard_off [OF g4]
    by (cases "truthy (optionValue c ''crashguard'')"; simp)+
  have m5s: "modcache ?s5 ''./sockets'' = None" using G m5 by simp
  note N = networking_ok [OF d6 m5s, unfolded case_prod_unfold]
  have m6: "modcache ?s6 ''./team-validator'' = None" using N G m5 by simp
  have g6: "globals ?s6 ''Tools'' = Some (GExports ''./tools'')" using N G g5 by simp
  note L = lastGlobal_ok [OF d7 m6 g6, unfolded case_prod_unfold]
  have m7: "modcache ?s7 ''./repl'' = None" using L N G m5 by simp
  note R = startRepl_ok [OF d8 m7, unfolded case_prod_unfold]
  have g8: "globals ?s8 ''Config'' = Some (GConfig c)" using R L N g5 g4 by simp
  have t4: "trace ?s4 = trace ?s3 @
           [Did (Load ''node_modules/sqlite3''), Did (Load ''node_modules/origindb''),
            Did (Call ''origindb''), Did (Load ''./monitor''), Did (Load ''./tools''),
            Did (Load ''./loginserver''), Did (Load (ladders (optionValue c ''remoteladder''))),
            Did (Load ''./users''), Did (Load ''./punishments''),
            Did (Load ''./chat''), Did (Load ''./rooms''), Did (Load ''./tells.js''),
            Did (Load ''./verifier''), Did (Call ''Verifier.PM.spawn''),
            Did (Load ''./tournaments''), Did (Load ''./dnsbl''),
            Did (Call ''Dnsbl.loadDatacenters'')]"
    using G by blast
  have t6: "trace ?s6 = trace ?s5 @ Did (Load ''./sockets'')
             # (if isMain w then [Did (Call ''Sockets.listen'')] else [])"
    using N by blast
  have t7: "trace ?s7 = trace ?s6 @
            [Did (Call ''Tools.includeFormats''), Did (Load ''./team-validator''),
             Did (Call ''TeamValidator.PM.spawn'')]"
    using L by blast
  have t8: "trace ?s8 = trace ?s7 @ [Did (Load ''./repl''), Did (Call ''repl.start'')]"
    using R by blast
  have tr: "trace ?s8 = trace s @ D @ C @ [Did (Load cfgPath)]
         @ (if truthy (optionValue c ''watchconfig'') then [WatchFile cfgPath] else [])
         @ [Did (Load ''node_modules/sqlite3''), Did (Load ''node_modules/origindb''),
            Did (Call ''origindb''), Did (Load ''./monitor''), Did (Load ''./tools''),
            Did (Load ''./loginserver''), Did (Load (ladders (optionValue c ''remoteladder''))),
            Did (Load ''./users''), Did (Load ''./punishments''),
            Did (Load ''./chat''), Did (Load ''./rooms''), Did (Load ''./tells.js''),
            Did (Load ''./verifier''), Did (Call ''Verifier.PM.spawn''),
            Did (Load ''./tournaments''), Did (Load ''./dnsbl''),
            Did (Call ''Dnsbl.loadDatacenters'')]
         @ (if truthy (optionValue c ''crashguard'')
            then [On ''uncaughtException'', On ''unhandledRejection'', On ''exit''] else [])
         @ Did (Load ''./sockets'') # (if isMain w then [Did (Call ''Sockets.listen'')] else [])
         @ [Did (Call ''Tools.includeFormats''), Did (Load ''./team-validator''),
            Did (Call ''TeamValidator.PM.spawn''), Did (Load ''./repl''), Did (Call ''repl.start'')]"
    unfolding t8 t7 t6 t5 t4 t3 t2 t1 by simp
  have f2: "files ?s2 cfgPath \<noteq> None"
    using loadConfig_ok [OF d2 m1'] by blast
  have f3: "files ?s3 = files ?s2" and p3: "packages ?s3 = packages ?s2"
    using watchConfig_ok [OF d3 g2] by simp_all
  have f5: "files ?s5 = files ?s4" and p5: "packages ?s5 = packages ?s4"
    using crashGuard_on [OF g4] crashGuard_off [OF g4]
    by (cases "truthy (optionValue c ''crashguard'')"; simp)+
  have f8: "files ?s8 cfgPath \<noteq> None"
    using f2 f3 G f5 N L R by simp
  have p8: "''sqlite3'' \<in> set (packages ?s8)" "''origindb'' \<in> set (packages ?s8)"
    using G p5 N L R by simp_all
  have c4: "modcache ?s4 cfgPath = Some (GConfig c)" using G by blast
  have c8: "modcache ?s8 cfgPath = Some (GConfig c)"
    using c4 m5 N L R by simp
  have l4: "modcache ?s4 (ladders (optionValue c ''remoteladder''))
      = Some (GExports (ladders (optionValue c ''remoteladder'')))"
    using G by blast
  have ln: "ladders (optionValue c ''remoteladder'') \<noteq> ''./sockets''"
    "ladders (optionValue c ''remoteladder'') \<noteq> ''./team-validator''"
    "ladders (optionValue c ''remoteladder'') \<noteq> ''./repl''"
    by (simp_all add: ladders_def)
  have l8: "modcache ?s8 (ladders (optionValue c ''remoteladder''))
      = Some (GExports (ladders (optionValue c ''remoteladder'')))"
    using l4 ln m5 N L R by simp
  have a4: "\<forall>p \<in> set [''node_modules/sqlite3'', ''node_modules/origindb'', ''./monitor'',
              ''./tools'', ''./loginserver'', ''./users'', ''./punishments'', ''./chat'',
              ''./rooms'', ''./tells.js'', ''./verifier'', ''./tournaments'', ''./dnsbl''].
             modcache ?s4 p = Some (GExports p)"
    using G by blast
  have a8: "\<forall>p \<in> set [''node_modules/sqlite3'', ''node_modules/origindb'', ''./monitor'',
              ''./tools'', ''./loginserver'', ''./users'', ''./punishments'', ''./chat'',
              ''./rooms'', ''./tells.js'', ''./verifier'', ''./tournaments'', ''./dnsbl''].
             modcache ?s8 p = Some (GExports p)"
    using a4 m5 N L R by simp
  have s8: "modcache ?s8 ''./sockets'' = Some (GExports ''./sockets'')"
    "modcache ?s8 ''./team-validator'' = Some (GExports ''./team-validator'')"
    "modcache ?s8 ''./repl'' = Some (GExports ''./repl'')"
    using N L R by simp_all
  have all8: "\<forall>p \<in> set [ladders (optionValue c ''remoteladder''),
              ''node_modules/sqlite3'', ''node_modules/origindb'', ''./monitor'',
              ''./tools'', ''./loginserver'', ''./users'', ''./punishments'', ''./chat'',
              ''./rooms'', ''./tells.js'', ''./verifier'', ''./tournaments'', ''./dnsbl'',
              ''./sockets'', ''./team-validator'', ''./repl''].
           modcache ?s8 p = Some (GExports p)"
    using l8 a8 s8 by simp
  show ?thesis
    unfolding fin using g8 D C tr f8 p8 c8 all8 by blast
qed

lemma startup_events:
  assumes "fst (startup w s) = Inr ()" and "modcache s = Map.empty"
  shows "\<exists>c D C. globals (snd (startup w s)) ''Config'' = Some (GConfig c)
     \<and> (D = [] \<or> (\<exists>e. D = [Failed (Resolve ''sockjs'') e,
             Log ''Installing dependencies: `npm install --production`...'',
             SpawnSync ''sh -c npm install --production'']))
     \<and> (C = [] \<or> (\<exists>e. C = [Failed (Resolve cfgName) e,
             Log ''config.js doesn't exist - creating one with default settings...'',
             Did (WriteFile cfgPath)]))
     \<and> trace (snd (startup w s)) = trace s @ D @ C @ [Did (Load cfgPath)]
         @ (if truthy (optionValue c ''watchconfig'') then [WatchFile cfgPath] else [])
         @ [Did (Load ''node_modules/sqlite3''), Did (Load ''node_modules/origindb''),
            Did (Call ''origindb''), Did (Load ''./monitor''), Did (Load ''./tools''),
            Did (Load ''./loginserver''), Did (Load (ladders (optionValue c ''remoteladder''))),
            Did (Load ''./users''), Did (Load ''./punishments''),
            Did (Load ''./chat''), Did (Load ''./rooms''), Did (Load ''./tells.js''),
            Did (Load ''./verifier''), Did (Call ''Verifier.PM.spawn''),
            Did (Load ''./tournaments''), Did (Load ''./dnsbl''),
            Did (Call ''Dnsbl.loadDatacenters'')]
         @ (if truthy (optionValue c ''crashguard'')
            then [On ''uncaughtException'', On ''unhandledRejection'', On ''exit''] else [])
         @ Did (Load ''./sockets'') # (if isMain w then [Did (Call ''Sockets.listen'')] else [])
         @ [Did (Call ''Tools.includeFormats''), Did (Load ''./team-validator''),
            Did (Call ''TeamValidator.PM.spawn''), Did (Load ''./repl''), Did (Call ''repl.start'')]"
  using startup_run [OF assms] by blast


lemma loads_append: "loads (xs @ ys) = loads xs @ loads ys"
  by (induction xs rule: loads.induct) simp_all

text \<open>Running the sequence in a process in which it has already run.\<close>

lemma rerun_quiet:
  assumes "\<forall>h p. fault w h p = None" and "isMain w"
    and "files s cfgPath \<noteq> None"
    and "''sqlite3'' \<in> set (packages s)" and "''origindb'' \<in> set (packages s)"
    and "modcache s cfgPath = Some (GConfig c)"
    and "\<forall>p \<in> set [ladders (optionValue c ''remoteladder''),
              ''node_modules/sqlite3'', ''node_modules/origindb'', ''./monitor'',
              ''./tools'', ''./loginserver'', ''./users'', ''./punishments'', ''./chat'',
              ''./rooms'', ''./tells.js'', ''./verifier'', ''./tournaments'', ''./dnsbl'',
              ''./sockets'', ''./team-validator'', ''./repl''].
           modcache s p = Some (GExports p)"
  shows "(case startup w s of
      (r, s') \<Rightarrow> r = Inr () \<and> loads (drop (length (trace s)) (trace s')) = [])"
proof -
  obtain src where f: "files s cfgPath = Some src"
    using assms(3) by blast
  have l: "ladders (optionValue c ''remoteladder'') = ''./ladders''
      \<or> ladders (optionValue c ''remoteladder'') = ''./ladders-remote''"
    by (simp add: ladders_def)
  then show ?thesis
  proof
    assume "ladders (optionValue c ''remoteladder'') = ''./ladders''"
    with assms(1,2,4-7) f show ?thesis
      by (simp add: monad_defs node_defs app_defs del: optionValue_def ladders_def)
  next
    assume "ladders (optionValue c ''remoteladder'') = ''./ladders-remote''"
    with assms(1,2,4-7) f show ?thesis
      by (simp add: monad_defs node_defs app_defs del: optionValue_def ladders_def)
  qed
qed

text \<open>
  Claim C8, as amended. Every startup of a fresh process that succeeds leaves exactly
  this history, in this order: the dependency check (with the installation when
  \<^verbatim>\<open>sockjs\<close> did not resolve); the configuration (with the copy of the example when the
  file was absent), and the watcher when \<^verbatim>\<open>Config.watchconfig\<close> is set; the globals, from
  sqlite3 to the data centres, with \<^verbatim>\<open>Verifier.PM.spawn()\<close> among them; the three process
  listeners of the crash guard when \<^verbatim>\<open>Config.crashguard\<close> is set; the sockets module and,
  for the main module, \<^verbatim>\<open>Sockets.listen\<close>; the formats, the team validator and
  \<^verbatim>\<open>TeamValidator.PM.spawn()\<close>; the REPL. So the verifier's worker is spawned before the
  crash guard is installed and before the server listens; the team validator's worker is
  spawned after both.
\<close>

theorem startup_order:
  assumes "fst (startup w s) = Inr ()" and "modcache s = Map.empty"
  shows "\<exists>c D C. globals (snd (startup w s)) ''Config'' = Some (GConfig c)
     \<and> (D = [] \<or> (\<exists>e. D = [Failed (Resolve ''sockjs'') e,
             Log ''Installing dependencies: `npm install --production`...'',
             SpawnSync ''sh -c npm install --production'']))
     \<and> (C = [] \<or> (\<exists>e. C = [Failed (Resolve cfgName) e,
             Log ''config.js doesn't exist - creating one with default settings...'',
             Did (WriteFile cfgPath)]))
     \<and> trace (snd (startup w s)) = trace s @ D @ C @ [Did (Load cfgPath)]
         @ (if truthy (optionValue c ''watchconfig'') then [WatchFile cfgPath] else [])
         @ [Did (Load ''node_modules/sqlite3''), Did (Load ''node_modules/origindb''),
            Did (Call ''origindb''), Did (Load ''./monitor''), Did (Load ''./tools''),
            Did (Load ''./loginserver''), Did (Load (ladders (optionValue c ''remoteladder''))),
            Did (Load ''./users''), Did (Load ''./punishments''),
            Did (Load ''./chat''), Did (Load ''./rooms''), Did (Load ''./tells.js''),
            Did (Load ''./verifier''), Did (Call ''Verifier.PM.spawn''),
            Did (Load ''./tournaments''), Did (Load ''./dnsbl''),
            Did (Call ''Dnsbl.loadDatacenters'')]
         @ (if truthy (optionValue c ''crashguard'')
            then [On ''uncaughtException'', On ''unhandledRejection'', On ''exit''] else [])
         @ Did (Load ''./sockets'') # (if isMain w then [Did (Call ''Sockets.listen'')] else [])
         @ [Did (Call ''Tools.includeFormats''), Did (Load ''./team-validator''),
            Did (Call ''TeamValidator.PM.spawn''), Did (Load ''./repl''), Did (Call ''repl.start'')]"
  using assms by (rule startup_events)

theorem startup_order_witness:
  "fst (startup exampleWorld (freshProc [cfgPath \<mapsto> guardedText] allPackages)) = Inr ()
   \<and> modcache (freshProc [cfgPath \<mapsto> guardedText] allPackages) = Map.empty
   \<and> trace (snd (startup exampleWorld (freshProc [cfgPath \<mapsto> guardedText] allPackages))) =
           [Did (Load cfgPath), WatchFile cfgPath,
            Did (Load ''node_modules/sqlite3''), Did (Load ''node_modules/origindb''),
            Did (Call ''origindb''), Did (Load ''./monitor''), Did (Load ''./tools''),
            Did (Load ''./loginserver''), Did (Load ''./ladders''),
            Did (Load ''./users''), Did (Load ''./punishments''),
            Did (Load ''./chat''), Did (Load ''./rooms''), Did (Load ''./tells.js''),
            Did (Load ''./verifier''), Did (Call ''Verifier.PM.spawn''),
            Did (Load ''./tournaments''), Did (Load ''./dnsbl''),
            Did (Call ''Dnsbl.loadDatacenters''), On ''uncaughtException'',
            On ''unhandledRejection'', On ''exit'', Did (Load ''./sockets''),
            Did (Call ''Sockets.listen''), Did (Call ''Tools.includeFormats''),
            Did (Load ''./team-validator''), Did (Call ''TeamValidator.PM.spawn''),
            Did (Load ''./repl''), Did (Call ''repl.start'')]"
proof -
  have h1: "fst (startup exampleWorld (freshProc [cfgPath \<mapsto> guardedText] allPackages)) = Inr ()"
    using startup_guarded by (simp split: prod.splits)
  have h2: "modcache (freshProc [cfgPath \<mapsto> guardedText] allPackages) = Map.empty"
    by (simp add: freshProc_def)
  from startup_order [OF h1 h2] h1 h2 guardedProc_trace show ?thesis
    by (simp add: guardedProc_def)
qed

text \<open>
  Claim C8 as stated fails on the example server: in its startup the call
  \<^verbatim>\<open>Verifier.PM.spawn()\<close> comes before the first listener of the crash guard is
  registered, and before \<^verbatim>\<open>Sockets.listen\<close>.
\<close>

theorem startup_order_counterexample:
  "fst (startup exampleWorld (freshProc [cfgPath \<mapsto> guardedText] allPackages)) = Inr ()
   \<and> Did (Call ''Verifier.PM.spawn'') \<in> set (takeWhile (\<lambda>ev. ev \<noteq> On ''uncaughtException'')
        (trace (snd (startup exampleWorld (freshProc [cfgPath \<mapsto> guardedText] allPackages)))))
   \<and> Did (Call ''Verifier.PM.spawn'') \<in> set (takeWhile (\<lambda>ev. ev \<noteq> Did (Call ''Sockets.listen''))
        (trace (snd (startup exampleWorld (freshProc [cfgPath \<mapsto> guardedText] allPackages)))))
   \<and> On ''uncaughtException''
        \<in> set (trace (snd (startup exampleWorld (freshProc [cfgPath \<mapsto> guardedText] allPackages))))"
proof -
  have h1: "fst (startup exampleWorld (freshProc [cfgPath \<mapsto> guardedText] allPackages)) = Inr ()"
    using startup_guarded by (simp split: prod.splits)
  show ?thesis
    unfolding guardedProc_def [symmetric] guardedProc_trace
    using h1 by (simp add: guardedProc_def [symmetric])
qed

text \<open>
  Claim C9, as amended. A startup of a fresh process that succeeds runs the top-level
  code of each module exactly once, in the order of the source: the configuration,
  sqlite3, origindb, monitor, tools, loginserver, the ladders module chosen by
  \<^verbatim>\<open>Config.remoteladder\<close>, users, punishments, chat, rooms, tells, verifier,
  tournaments, dnsbl, sockets, team-validator, repl. Running the sequence again in the
  same process is not rejected: when app.js is the main module and nothing outside
  app.js fails during the second run, it returns normally and runs no module's top-level
  code again.
\<close>

theorem subsystems_loaded_once:
  assumes "fst (startup w s) = Inr ()" and "modcache s = Map.empty"
  shows "\<exists>c. globals (snd (startup w s)) ''Config'' = Some (GConfig c)
    \<and> loads (drop (length (trace s)) (trace (snd (startup w s)))) =
        [cfgPath, ''node_modules/sqlite3'', ''node_modules/origindb'', ''./monitor'', ''./tools'',
         ''./loginserver'', ladders (optionValue c ''remoteladder''), ''./users'',
         ''./punishments'', ''./chat'', ''./rooms'', ''./tells.js'', ''./verifier'',
         ''./tournaments'', ''./dnsbl'', ''./sockets'', ''./team-validator'', ''./repl'']
    \<and> distinct (loads (drop (length (trace s)) (trace (snd (startup w s)))))
    \<and> (\<forall>w'. (\<forall>h p. fault w' h p = None) \<and> isMain w' \<longrightarrow>
          fst (startup w' (snd (startup w s))) = Inr ()
          \<and> loads (drop (length (trace (snd (startup w s))))
               (trace (snd (startup w' (snd (startup w s)))))) = [])"
proof -
  from startup_run [OF assms] obtain c D C where
    g: "globals (snd (startup w s)) ''Config'' = Some (GConfig c)"
    and D: "D = [] \<or> (\<exists>e. D = [Failed (Resolve ''sockjs'') e,
             Log ''Installing dependencies: `npm install --production`...'',
             SpawnSync ''sh -c npm install --production''])"
    and C: "C = [] \<or> (\<exists>e. C = [Failed (Resolve cfgName) e,
             Log ''config.js doesn't exist - creating one with default settings...'',
             Did (WriteFile cfgPath)])"
    and t: "trace (snd (startup w s)) = trace s @ D @ C @ [Did (Load cfgPath)]
         @ (if truthy (optionValue c ''watchconfig'') then [WatchFile cfgPath] else [])
         @ [Did (Load ''node_modules/sqlite3''), Did (Load ''node_modules/origindb''),
            Did (Call ''origindb''), Did (Load ''./monitor''), Did (Load ''./tools''),
            Did (Load ''./loginserver''), Did (Load (ladders (optionValue c ''remoteladder''))),
            Did (Load ''./users''), Did (Load ''./punishments''),
            Did (Load ''./chat''), Did (Load ''./rooms''), Did (Load ''./tells.js''),
            Did (Load ''./verifier''), Did (Call ''Verifier.PM.spawn''),
            Did (Load ''./tournaments''), Did (Load ''./dnsbl''),
            Did (Call ''Dnsbl.loadDatacenters'')]
         @ (if truthy (optionValue c ''crashguard'')
            then [On ''uncaughtException'', On ''unhandledRejection'', On ''exit''] else [])
         @ Did (Load ''./sockets'') # (if isMain w then [Did (Call ''Sockets.listen'')] else [])
         @ [Did (Call ''Tools.includeFormats''), Did (Load ''./team-validator''),
            Did (Call ''TeamValidator.PM.spawn''), Did (Load ''./repl''), Did (Call ''repl.start'')]"
    and f: "files (snd (startup w s)) cfgPath \<noteq> None"
    and p1: "''sqlite3'' \<in> set (packages (snd (startup w s)))"
    and p2: "''origindb'' \<in> set (packages (snd (startup w s)))"
    and m: "modcache (snd (startup w s)) cfgPath = Some (GConfig c)"
    and a: "\<forall>p \<in> set [ladders (optionValue c ''remoteladder''),
              ''node_modules/sqlite3'', ''node_modules/origindb'', ''./monitor'',
              ''./tools'', ''./loginserver'', ''./users'', ''./punishments'', ''./chat'',
              ''./rooms'', ''./tells.js'', ''./verifier'', ''./tournaments'', ''./dnsbl'',
              ''./sockets'', ''./team-validator'', ''./repl''].
           modcache (snd (startup w s)) p = Some (GExports p)"
    by blast
  have lD: "loads D = []" using D by auto
  have lC: "loads C = []" using C by auto
  have l: "loads (drop (length (trace s)) (trace (snd (startup w s)))) =
        [cfgPath, ''node_modules/sqlite3'', ''node_modules/origindb'', ''./monitor'', ''./tools'',
         ''./loginserver'', ladders (optionValue c ''remoteladder''), ''./users'',
         ''./punishments'', ''./chat'', ''./rooms'', ''./tells.js'', ''./verifier'',
         ''./tournaments'', ''./dnsbl'', ''./sockets'', ''./team-validator'', ''./repl'']"
    unfolding t by (simp add: loads_append lD lC)
  have d: "distinct [cfgPath, ''node_modules/sqlite3'', ''node_modules/origindb'', ''./monitor'', ''./tools'',
         ''./loginserver'', ladders (optionValue c ''remoteladder''), ''./users'',
         ''./punishments'', ''./chat'', ''./rooms'', ''./tells.js'', ''./verifier'',
         ''./tournaments'', ''./dnsbl'', ''./sockets'', ''./team-validator'', ''./repl'']"
    by (simp add: ladders_def)
  have again: "\<forall>w'. (\<forall>h p. fault w' h p = None) \<and> isMain w' \<longrightarrow>
          fst (startup w' (snd (startup w s))) = Inr ()
          \<and> loads (drop (length (trace (snd (startup w s))))
               (trace (snd (startup w' (snd (startup w s)))))) = []"
  proof (intro allI impI)
    fix w' :: world
    assume h: "(\<forall>h p. fault w' h p = None) \<and> isMain w'"
    then have q: "\<forall>h p. fault w' h p = None" and i: "isMain w'" by blast+
    from rerun_quiet [OF q i f p1 p2 m a]
    show "fst (startup w' (snd (startup w s))) = Inr ()
          \<and> loads (drop (length (trace (snd (startup w s))))
               (trace (snd (startup w' (snd (startup w s)))))) = []"
      by (simp add: case_prod_unfold)
  qed
  show ?thesis using g l d again by auto
qed

theorem subsystems_loaded_once_witness:
  "loads (trace (snd (startup exampleWorld (freshProc [cfgPath \<mapsto> guardedText] allPackages)))) =
        [cfgPath, ''node_modules/sqlite3'', ''node_modules/origindb'', ''./monitor'', ''./tools'',
         ''./loginserver'', ''./ladders'', ''./users'',
         ''./punishments'', ''./chat'', ''./rooms'', ''./tells.js'', ''./verifier'',
         ''./tournaments'', ''./dnsbl'', ''./sockets'', ''./team-validator'', ''./repl'']
   \<and> fst (startup exampleWorld
        (snd (startup exampleWorld (freshProc [cfgPath \<mapsto> guardedText] allPackages)))) = Inr ()"
proof -
  have h1: "fst (startup exampleWorld (freshProc [cfgPath \<mapsto> guardedText] allPackages)) = Inr ()"
    using startup_guarded by (simp split: prod.splits)
  have h2: "modcache (freshProc [cfgPath \<mapsto> guardedText] allPackages) = Map.empty"
    by (simp add: freshProc_def)
  have h3: "trace (freshProc [cfgPath \<mapsto> guardedText] allPackages) = []"
    by (simp add: freshProc_def)
  have h4: "(\<forall>h p. fault exampleWorld h p = None) \<and> isMain exampleWorld"
    by (simp add: exampleWorld_def)
  from subsystems_loaded_once [OF h1 h2] obtain c where
    g: "globals guardedProc ''Config'' = Some (GConfig c)"
    and l: "loads (trace guardedProc) =
        [cfgPath, ''node_modules/sqlite3'', ''node_modules/origindb'', ''./monitor'', ''./tools'',
         ''./loginserver'', ladders (optionValue c ''remoteladder''), ''./users'',
         ''./punishments'', ''./chat'', ''./rooms'', ''./tells.js'', ''./verifier'',
         ''./tournaments'', ''./dnsbl'', ''./sockets'', ''./team-validator'', ''./repl'']"
    and again: "\<forall>w'. (\<forall>h p. fault w' h p = None) \<and> isMain w' \<longrightarrow>
          fst (startup w' guardedProc) = Inr ()
          \<and> loads (drop (length (trace guardedProc)) (trace (snd (startup w' guardedProc)))) = []"
    unfolding h3 guardedProc_def by auto
  from g have "c = [(''crashguard'', JBool True), (''watchconfig'', JBool True)]"
    by (simp add: guardedProc_facts)
  then have "ladders (optionValue c ''remoteladder'') = ''./ladders''"
    by (simp add: ladders_def optionValue_def)
  moreover have "fst (startup exampleWorld guardedProc) = Inr ()"
    using again h4 by blast
  ultimately show ?thesis
    using l by (simp add: guardedProc_def)
qed

text \<open>
  Claim C9 as stated fails on the example server: running the whole sequence a second
  time in the same process is not rejected. It returns normally, runs no module's
  top-level code again (every \<^verbatim>\<open>require\<close> is answered from the module cache), and
  registers the process listeners a second time.
\<close>

lemma second_run:
  "(case startup exampleWorld guardedProc of
      (r, s) \<Rightarrow> r = Inr ()
        \<and> loads (drop (length (trace guardedProc)) (trace s)) = []
        \<and> listeners s = [''uncaughtException'', ''unhandledRejection'', ''exit'',
                         ''uncaughtException'', ''unhandledRejection'', ''exit''])"
  by (simp add: guardedProc_def monad_defs node_defs app_defs example_defs)

theorem subsystems_loaded_once_counterexample:
  "fst (startup exampleWorld (freshProc [cfgPath \<mapsto> guardedText] allPackages)) = Inr ()
   \<and> fst (startup exampleWorld
        (snd (startup exampleWorld (freshProc [cfgPath \<mapsto> guardedText] allPackages)))) = Inr ()
   \<and> loads (drop (length (trace (snd (startup exampleWorld (freshProc [cfgPath \<mapsto> guardedText] allPackages)))))
        (trace (snd (startup exampleWorld
          (snd (startup exampleWorld (freshProc [cfgPath \<mapsto> guardedText] allPackages))))))) = []"
proof -
  have h1: "fst (startup exampleWorld (freshProc [cfgPath \<mapsto> guardedText] allPackages)) = Inr ()"
    using startup_guarded by (simp split: prod.splits)
  show ?thesis
    unfolding guardedProc_def [symmetric]
    using h1 second_run by (simp add: guardedProc_def [symmetric] split: prod.splits)
qed

end
